theory Spec2Isabelle
  imports Main
begin

section \<open>The Script orchestrator of libbcc (lib/ExecutionEngine/Script.cpp)\<close>

text \<open>
  The theory embeds \<^verbatim>\<open>Script.cpp\<close> as it reads after preprocessing with \<^verbatim>\<open>USE_CACHE\<close> and
  \<^verbatim>\<open>USE_MCJIT\<close> set: the file calls \<^verbatim>\<open>getELF\<close> and uses \<^verbatim>\<open>reader\<close> and \<^verbatim>\<open>writer\<close> outside the
  \<^verbatim>\<open>USE_MCJIT\<close> guards, so it only builds that way, and the cache is the subject of the
  specification. \<^verbatim>\<open>TARGET_BUILD\<close> stays a parameter.

  Every member function becomes a function from the \<open>Script\<close> object before the call to the
  returned value and the object after it. Member functions that follow \<^verbatim>\<open>mCompiled\<close> or
  \<^verbatim>\<open>mCached\<close> return an \<open>option\<close>: \<open>None\<close> is the dereference of a null artifact pointer, where
  the process faults. \<^verbatim>\<open>const\<close> member functions return the object unchanged. Logging
  (\<^verbatim>\<open>ALOGE\<close>) is dropped, but the evaluation of its arguments is kept where it has an effect.
\<close>

subsection \<open>Data\<close>

type_synonym addr = nat
  \<comment> \<open>an opaque non-null pointer value; a nullable pointer is an \<open>addr option\<close>\<close>
type_synonym size_t = nat
type_synonym path = string

datatype BCCenum = BCC_NO_ERROR | BCC_INVALID_VALUE | BCC_INVALID_OPERATION | BCC_OUT_OF_MEMORY

datatype ScriptStatus = Unknown | Compiled | Cached

datatype ScriptObject = ScriptObject_Unknown | Relocatable | SharedObject | Executable

datatype OpenMode = Read | Write

record FuncInfo =
  fi_name :: string
  fi_addr :: "addr option"
  fi_size :: size_t

text \<open>
  \<^verbatim>\<open>SourceInfo\<close>, \<^verbatim>\<open>ScriptCompiled\<close>, \<^verbatim>\<open>ScriptCached\<close> and \<^verbatim>\<open>CompilerOption\<close> are declared in headers
  that are not part of the sources. A source descriptor records where it came from and the
  module it has materialised so far. An artifact is the table of the answers its member
  functions give; a list-fill member is the function from the capacity and the caller's
  buffer to the buffer after the call.
\<close>

datatype SourceOrigin =
    FromBuffer string string size_t
  | FromModule addr
  | FromFile path

record SourceInfo =
  src_origin :: SourceOrigin
  src_flags :: nat
  src_module :: "addr option"
  src_context :: "addr option"

record CompilerOption =
  RelocModelOpt :: nat
  LoadAfterCompile :: bool

record ScriptCompiled =
  compiled_callback :: "(addr \<times> addr option) option"
  compiled_getCompilerErrorMessage :: "string option"
  compiled_lookup :: "string \<Rightarrow> addr option"
  compiled_getExportVarCount :: size_t
  compiled_getExportFuncCount :: size_t
  compiled_getExportForEachCount :: size_t
  compiled_getPragmaCount :: size_t
  compiled_getFuncCount :: size_t
  compiled_getObjectSlotCount :: size_t
  compiled_getExportVarList :: "size_t \<Rightarrow> addr option list \<Rightarrow> addr option list"
  compiled_getExportVarNameList :: "string list \<Rightarrow> string list"
  compiled_getExportFuncList :: "size_t \<Rightarrow> addr option list \<Rightarrow> addr option list"
  compiled_getExportFuncNameList :: "string list \<Rightarrow> string list"
  compiled_getExportForEachList :: "size_t \<Rightarrow> addr option list \<Rightarrow> addr option list"
  compiled_getExportForEachNameList :: "string list \<Rightarrow> string list"
  compiled_getPragmaList ::
    "size_t \<Rightarrow> string list \<times> string list \<Rightarrow> string list \<times> string list"
  compiled_getFuncInfoList :: "size_t \<Rightarrow> FuncInfo list \<Rightarrow> FuncInfo list"
  compiled_getObjectSlotList :: "size_t \<Rightarrow> nat list \<Rightarrow> nat list"
  compiled_getELF :: "string option"
  compiled_getELFSize :: size_t

record ScriptCached =
  cached_isLibRSThreadable :: bool
  cached_lookup :: "string \<Rightarrow> addr option"
  cached_getExportVarCount :: size_t
  cached_getExportFuncCount :: size_t
  cached_getExportForEachCount :: size_t
  cached_getPragmaCount :: size_t
  cached_getFuncCount :: size_t
  cached_getObjectSlotCount :: size_t
  cached_getExportVarList :: "size_t \<Rightarrow> addr option list \<Rightarrow> addr option list"
  cached_getExportFuncList :: "size_t \<Rightarrow> addr option list \<Rightarrow> addr option list"
  cached_getExportForEachList :: "size_t \<Rightarrow> addr option list \<Rightarrow> addr option list"
  cached_getPragmaList ::
    "size_t \<Rightarrow> string list \<times> string list \<Rightarrow> string list \<times> string list"
  cached_getFuncInfoList :: "size_t \<Rightarrow> FuncInfo list \<Rightarrow> FuncInfo list"
  cached_getObjectSlotList :: "size_t \<Rightarrow> nat list \<Rightarrow> nat list"
  cached_getELF :: "string option"
  cached_getELFSize :: size_t

text \<open>
  Modelled from the spec: the \<^verbatim>\<open>Script\<close> class of \<^verbatim>\<open>Script.h\<close>, which is not part of the
  sources. The specification's data model gives it two source slots, the status tag, two
  nullable artifact pointers, the cache location strings, the sticky error code, the
  callback with its context and the object type; \<^verbatim>\<open>mIsContextSlotNotAvail\<close> is the field
  \<^verbatim>\<open>internalLoadCache\<close> assigns. \<open>mSourceList\<close> is the two-element array as a list.
\<close>

record Script =
  mErrorCode :: BCCenum
  mStatus :: ScriptStatus
  mObjectType :: ScriptObject
  mCompiled :: "ScriptCompiled option"
  mCached :: "ScriptCached option"
  mIsContextSlotNotAvail :: bool
  mCacheDir :: string
  mCacheName :: string
  mSourceList :: "SourceInfo option list"
  mpExtSymbolLookupFn :: "addr option"
  mpExtSymbolLookupFnContext :: "addr option"

text \<open>
  Modelled from the spec: the constructor of \<^verbatim>\<open>Script\<close> (in \<^verbatim>\<open>Script.h\<close>). A new Script is in
  state Unknown with no artifact, no source, no callback and empty cache strings.
\<close>

definition Script_new :: Script where
  "Script_new =
     \<lparr>mErrorCode = BCC_NO_ERROR, mStatus = Unknown, mObjectType = ScriptObject_Unknown,
      mCompiled = None, mCached = None, mIsContextSlotNotAvail = False,
      mCacheDir = [], mCacheName = [], mSourceList = [None, None],
      mpExtSymbolLookupFn = None, mpExtSymbolLookupFnContext = None\<rparr>"

type_synonym Dependency = "nat \<times> string \<times> string"
  \<comment> \<open>resource kind, path, SHA-1\<close>

text \<open>
  A cache reader is what \<^verbatim>\<open>internalLoadCache\<close> has told it before it reads: the callback
  and the dependencies, in the order they were added. A cache writer is its dependencies.
\<close>

record MCCacheReader =
  reader_callback :: "(addr \<times> addr option) option"
  reader_dependencies :: "Dependency list"

type_synonym MCCacheWriter = "Dependency list"

text \<open>
  Everything \<^verbatim>\<open>Script.cpp\<close> calls but does not define is a field of the record \<open>Ext\<close>: the
  factories of \<^verbatim>\<open>SourceInfo\<close>, the allocation and the pipeline steps of \<^verbatim>\<open>ScriptCompiled\<close>, the
  cache reader and writer, the outcomes of the system calls, the host's callback and the
  constants of \<^verbatim>\<open>Config.h\<close> and \<^verbatim>\<open>Sha1Helper.h\<close>. A step that changes the object it is called
  on returns the changed object with its status.
\<close>

record Ext =
  TARGET_BUILD :: bool
  property_get :: "string \<Rightarrow> string \<Rightarrow> string"
  stat :: "path \<Rightarrow> int"
  createFromBuffer :: "string \<Rightarrow> string \<Rightarrow> size_t \<Rightarrow> nat \<Rightarrow> SourceInfo option"
  createFromModule :: "addr \<Rightarrow> nat \<Rightarrow> SourceInfo option"
  createFromFile :: "path \<Rightarrow> nat \<Rightarrow> SourceInfo option"
  CompilerOption_new :: CompilerOption
  new_ScriptCompiled :: "ScriptCompiled option"
  prepareModule :: "SourceInfo \<Rightarrow> addr option \<Rightarrow> int \<times> SourceInfo"
  readModule :: "addr option \<Rightarrow> ScriptCompiled \<Rightarrow> int \<times> ScriptCompiled"
  linkModule :: "addr option \<Rightarrow> ScriptCompiled \<Rightarrow> int \<times> ScriptCompiled"
  compile :: "CompilerOption \<Rightarrow> ScriptCompiled \<Rightarrow> int \<times> ScriptCompiled"
  introDependency :: "SourceInfo \<Rightarrow> Dependency list"
  BCC_FILE_RESOURCE :: nat
  pathLibBCC_SHA1 :: string
  sha1LibBCC_SHA1 :: string
  pathLibRS :: string
  sha1LibRS :: string
  cachedObjectPath :: "string \<Rightarrow> string \<Rightarrow> path"
  cacheInfoPath :: "string \<Rightarrow> string \<Rightarrow> path"
  open_result :: "path \<Rightarrow> OpenMode \<Rightarrow> int"
  write_result :: "path \<Rightarrow> string option \<Rightarrow> size_t \<Rightarrow> int"
  checkCacheFile :: "MCCacheReader \<Rightarrow> string \<Rightarrow> string \<Rightarrow> Script \<Rightarrow> bool"
  readCacheFile :: "MCCacheReader \<Rightarrow> string \<Rightarrow> string \<Rightarrow> Script \<Rightarrow> ScriptCached option"
  isContextSlotNotAvail :: "MCCacheReader \<Rightarrow> string \<Rightarrow> string \<Rightarrow> Script \<Rightarrow> bool"
  writeCacheFile :: "MCCacheWriter \<Rightarrow> Script \<Rightarrow> nat \<Rightarrow> bool \<times> string \<times> string"
  symbolLookupFn :: "addr \<Rightarrow> addr option \<Rightarrow> string \<Rightarrow> addr option"

text \<open>
  What a Script changes outside itself: the files on disk, the ranges registered with the
  debugger, and the calls made to the host's symbol callback.
\<close>

record World =
  files :: "path \<rightharpoonup> string"
  gdb_registry :: "(string option \<times> size_t) list"
  symbol_calls :: "(addr \<times> addr option \<times> string) list"

subsection \<open>Adding sources\<close>

text \<open>
  The store \<^verbatim>\<open>mSourceList[idx] = ...\<close> is \<open>list_update\<close>; the test that follows reads the
  element just stored. The array has two elements, and the source does not check \<open>idx\<close>: a
  store at \<open>2\<close> or more is outside the array (undefined in C++, no change in the model).
\<close>

definition addSourceBC ::
  "Ext \<Rightarrow> nat \<Rightarrow> string option \<Rightarrow> string option \<Rightarrow> size_t \<Rightarrow> nat \<Rightarrow> Script \<Rightarrow> int \<times> Script"
where
  "addSourceBC x idx resName bitcode bitcodeSize flags s =
     (case resName of
        None \<Rightarrow> (1, s\<lparr>mErrorCode := BCC_INVALID_VALUE\<rparr>)
      | Some rn \<Rightarrow>
          if mStatus s \<noteq> Unknown then (1, s\<lparr>mErrorCode := BCC_INVALID_OPERATION\<rparr>)
          else (case bitcode of
             None \<Rightarrow> (1, s\<lparr>mErrorCode := BCC_INVALID_VALUE\<rparr>)
           | Some bc \<Rightarrow>
               (let si = createFromBuffer x rn bc bitcodeSize flags;
                    s1 = s\<lparr>mSourceList := (mSourceList s)[idx := si]\<rparr>
                in if si = None then (1, s1\<lparr>mErrorCode := BCC_OUT_OF_MEMORY\<rparr>)
                   else (0, s1))))"

definition addSourceModule ::
  "Ext \<Rightarrow> nat \<Rightarrow> addr option \<Rightarrow> nat \<Rightarrow> Script \<Rightarrow> int \<times> Script"
where
  "addSourceModule x idx module flags s =
     (if mStatus s \<noteq> Unknown then (1, s\<lparr>mErrorCode := BCC_INVALID_OPERATION\<rparr>)
      else (case module of
         None \<Rightarrow> (1, s\<lparr>mErrorCode := BCC_INVALID_VALUE\<rparr>)
       | Some m \<Rightarrow>
           (let si = createFromModule x m flags;
                s1 = s\<lparr>mSourceList := (mSourceList s)[idx := si]\<rparr>
            in if si = None then (1, s1\<lparr>mErrorCode := BCC_OUT_OF_MEMORY\<rparr>)
               else (0, s1))))"

definition addSourceFile ::
  "Ext \<Rightarrow> nat \<Rightarrow> path option \<Rightarrow> nat \<Rightarrow> Script \<Rightarrow> int \<times> Script"
where
  "addSourceFile x idx pth flags s =
     (if mStatus s \<noteq> Unknown then (1, s\<lparr>mErrorCode := BCC_INVALID_OPERATION\<rparr>)
      else (case pth of
         None \<Rightarrow> (1, s\<lparr>mErrorCode := BCC_INVALID_VALUE\<rparr>)
       | Some p \<Rightarrow>
           if stat x p \<noteq> 0 then (1, s\<lparr>mErrorCode := BCC_INVALID_VALUE\<rparr>)
           else
             (let si = createFromFile x p flags;
                  s1 = s\<lparr>mSourceList := (mSourceList s)[idx := si]\<rparr>
              in if si = None then (1, s1\<lparr>mErrorCode := BCC_OUT_OF_MEMORY\<rparr>)
                 else (0, s1))))"

subsection \<open>The symbol callback\<close>

definition registerSymbolCallback ::
  "addr option \<Rightarrow> addr option \<Rightarrow> Script \<Rightarrow> int \<times> Script"
where
  "registerSymbolCallback pFn pContext s =
     (let s1 = s\<lparr>mpExtSymbolLookupFn := pFn, mpExtSymbolLookupFnContext := pContext\<rparr>
      in if mStatus s1 \<noteq> Unknown then (1, s1\<lparr>mErrorCode := BCC_INVALID_OPERATION\<rparr>)
         else (0, s1))"

subsection \<open>Queries delegated to the active artifact\<close>

definition getCompilerErrorMessage :: "Script \<Rightarrow> (string option \<times> Script) option" where
  "getCompilerErrorMessage s =
     (if mStatus s \<noteq> Compiled then Some (None, s\<lparr>mErrorCode := BCC_INVALID_OPERATION\<rparr>)
      else (case mCompiled s of
         None \<Rightarrow> None
       | Some c \<Rightarrow> Some (compiled_getCompilerErrorMessage c, s)))"

definition lookup :: "string \<Rightarrow> Script \<Rightarrow> (addr option \<times> Script) option" where
  "lookup name s =
     (case mStatus s of
        Compiled \<Rightarrow> (case mCompiled s of None \<Rightarrow> None
                      | Some c \<Rightarrow> Some (compiled_lookup c name, s))
      | Cached \<Rightarrow> (case mCached s of None \<Rightarrow> None
                    | Some c \<Rightarrow> Some (cached_lookup c name, s))
      | Unknown \<Rightarrow> Some (None, s\<lparr>mErrorCode := BCC_INVALID_OPERATION\<rparr>))"

definition getExportVarCount :: "Script \<Rightarrow> (size_t \<times> Script) option" where
  "getExportVarCount s =
     (case mStatus s of
        Compiled \<Rightarrow> (case mCompiled s of None \<Rightarrow> None
                      | Some c \<Rightarrow> Some (compiled_getExportVarCount c, s))
      | Cached \<Rightarrow> (case mCached s of None \<Rightarrow> None
                    | Some c \<Rightarrow> Some (cached_getExportVarCount c, s))
      | Unknown \<Rightarrow> Some (0, s))"

definition getExportFuncCount :: "Script \<Rightarrow> (size_t \<times> Script) option" where
  "getExportFuncCount s =
     (case mStatus s of
        Compiled \<Rightarrow> (case mCompiled s of None \<Rightarrow> None
                      | Some c \<Rightarrow> Some (compiled_getExportFuncCount c, s))
      | Cached \<Rightarrow> (case mCached s of None \<Rightarrow> None
                    | Some c \<Rightarrow> Some (cached_getExportFuncCount c, s))
      | Unknown \<Rightarrow> Some (0, s))"

definition getExportForEachCount :: "Script \<Rightarrow> (size_t \<times> Script) option" where
  "getExportForEachCount s =
     (case mStatus s of
        Compiled \<Rightarrow> (case mCompiled s of None \<Rightarrow> None
                      | Some c \<Rightarrow> Some (compiled_getExportForEachCount c, s))
      | Cached \<Rightarrow> (case mCached s of None \<Rightarrow> None
                    | Some c \<Rightarrow> Some (cached_getExportForEachCount c, s))
      | Unknown \<Rightarrow> Some (0, s))"

definition getPragmaCount :: "Script \<Rightarrow> (size_t \<times> Script) option" where
  "getPragmaCount s =
     (case mStatus s of
        Compiled \<Rightarrow> (case mCompiled s of None \<Rightarrow> None
                      | Some c \<Rightarrow> Some (compiled_getPragmaCount c, s))
      | Cached \<Rightarrow> (case mCached s of None \<Rightarrow> None
                    | Some c \<Rightarrow> Some (cached_getPragmaCount c, s))
      | Unknown \<Rightarrow> Some (0, s))"

definition getFuncCount :: "Script \<Rightarrow> (size_t \<times> Script) option" where
  "getFuncCount s =
     (case mStatus s of
        Compiled \<Rightarrow> (case mCompiled s of None \<Rightarrow> None
                      | Some c \<Rightarrow> Some (compiled_getFuncCount c, s))
      | Cached \<Rightarrow> (case mCached s of None \<Rightarrow> None
                    | Some c \<Rightarrow> Some (cached_getFuncCount c, s))
      | Unknown \<Rightarrow> Some (0, s))"

definition getObjectSlotCount :: "Script \<Rightarrow> (size_t \<times> Script) option" where
  "getObjectSlotCount s =
     (case mStatus s of
        Compiled \<Rightarrow> (case mCompiled s of None \<Rightarrow> None
                      | Some c \<Rightarrow> Some (compiled_getObjectSlotCount c, s))
      | Cached \<Rightarrow> (case mCached s of None \<Rightarrow> None
                    | Some c \<Rightarrow> Some (cached_getObjectSlotCount c, s))
      | Unknown \<Rightarrow> Some (0, s))"

text \<open>
  A list-fill query takes the caller's buffer and returns the buffer after the call with
  the object after the call.
\<close>

definition getExportVarList ::
  "size_t \<Rightarrow> addr option list \<Rightarrow> Script \<Rightarrow> (addr option list \<times> Script) option"
where
  "getExportVarList varListSize varList s =
     (case mStatus s of
        Cached \<Rightarrow> (case mCached s of None \<Rightarrow> None
                    | Some c \<Rightarrow> Some (cached_getExportVarList c varListSize varList, s))
      | Compiled \<Rightarrow> (case mCompiled s of None \<Rightarrow> None
                      | Some c \<Rightarrow> Some (compiled_getExportVarList c varListSize varList, s))
      | Unknown \<Rightarrow> Some (varList, s\<lparr>mErrorCode := BCC_INVALID_OPERATION\<rparr>))"

definition getExportVarNameList :: "string list \<Rightarrow> Script \<Rightarrow> (string list \<times> Script) option"
where
  "getExportVarNameList varList s =
     (case mStatus s of
        Compiled \<Rightarrow> (case mCompiled s of None \<Rightarrow> None
                      | Some c \<Rightarrow> Some (compiled_getExportVarNameList c varList, s))
      | _ \<Rightarrow> Some (varList, s\<lparr>mErrorCode := BCC_INVALID_OPERATION\<rparr>))"

definition getExportFuncList ::
  "size_t \<Rightarrow> addr option list \<Rightarrow> Script \<Rightarrow> (addr option list \<times> Script) option"
where
  "getExportFuncList funcListSize funcList s =
     (case mStatus s of
        Cached \<Rightarrow> (case mCached s of None \<Rightarrow> None
                    | Some c \<Rightarrow> Some (cached_getExportFuncList c funcListSize funcList, s))
      | Compiled \<Rightarrow> (case mCompiled s of None \<Rightarrow> None
                      | Some c \<Rightarrow> Some (compiled_getExportFuncList c funcListSize funcList, s))
      | Unknown \<Rightarrow> Some (funcList, s\<lparr>mErrorCode := BCC_INVALID_OPERATION\<rparr>))"

definition getExportFuncNameList :: "string list \<Rightarrow> Script \<Rightarrow> (string list \<times> Script) option"
where
  "getExportFuncNameList funcList s =
     (case mStatus s of
        Compiled \<Rightarrow> (case mCompiled s of None \<Rightarrow> None
                      | Some c \<Rightarrow> Some (compiled_getExportFuncNameList c funcList, s))
      | _ \<Rightarrow> Some (funcList, s\<lparr>mErrorCode := BCC_INVALID_OPERATION\<rparr>))"

definition getExportForEachList ::
  "size_t \<Rightarrow> addr option list \<Rightarrow> Script \<Rightarrow> (addr option list \<times> Script) option"
where
  "getExportForEachList funcListSize funcList s =
     (case mStatus s of
        Cached \<Rightarrow> (case mCached s of None \<Rightarrow> None
                    | Some c \<Rightarrow> Some (cached_getExportForEachList c funcListSize funcList, s))
      | Compiled \<Rightarrow> (case mCompiled s of None \<Rightarrow> None
                      | Some c \<Rightarrow>
                          Some (compiled_getExportForEachList c funcListSize funcList, s))
      | Unknown \<Rightarrow> Some (funcList, s\<lparr>mErrorCode := BCC_INVALID_OPERATION\<rparr>))"

definition getExportForEachNameList ::
  "string list \<Rightarrow> Script \<Rightarrow> (string list \<times> Script) option"
where
  "getExportForEachNameList forEachList s =
     (case mStatus s of
        Compiled \<Rightarrow> (case mCompiled s of None \<Rightarrow> None
                      | Some c \<Rightarrow> Some (compiled_getExportForEachNameList c forEachList, s))
      | _ \<Rightarrow> Some (forEachList, s\<lparr>mErrorCode := BCC_INVALID_OPERATION\<rparr>))"

definition getPragmaList ::
  "size_t \<Rightarrow> string list \<times> string list \<Rightarrow> Script
     \<Rightarrow> ((string list \<times> string list) \<times> Script) option"
where
  "getPragmaList pragmaListSize keysValues s =
     (case mStatus s of
        Cached \<Rightarrow> (case mCached s of None \<Rightarrow> None
                    | Some c \<Rightarrow> Some (cached_getPragmaList c pragmaListSize keysValues, s))
      | Compiled \<Rightarrow> (case mCompiled s of None \<Rightarrow> None
                      | Some c \<Rightarrow> Some (compiled_getPragmaList c pragmaListSize keysValues, s))
      | Unknown \<Rightarrow> Some (keysValues, s\<lparr>mErrorCode := BCC_INVALID_OPERATION\<rparr>))"

definition getFuncInfoList ::
  "size_t \<Rightarrow> FuncInfo list \<Rightarrow> Script \<Rightarrow> (FuncInfo list \<times> Script) option"
where
  "getFuncInfoList funcInfoListSize funcInfoList s =
     (case mStatus s of
        Cached \<Rightarrow> (case mCached s of None \<Rightarrow> None
                    | Some c \<Rightarrow>
                        Some (cached_getFuncInfoList c funcInfoListSize funcInfoList, s))
      | Compiled \<Rightarrow> (case mCompiled s of None \<Rightarrow> None
                      | Some c \<Rightarrow>
                          Some (compiled_getFuncInfoList c funcInfoListSize funcInfoList, s))
      | Unknown \<Rightarrow> Some (funcInfoList, s\<lparr>mErrorCode := BCC_INVALID_OPERATION\<rparr>))"

definition getObjectSlotList ::
  "size_t \<Rightarrow> nat list \<Rightarrow> Script \<Rightarrow> (nat list \<times> Script) option"
where
  "getObjectSlotList objectSlotListSize objectSlotList s =
     (case mStatus s of
        Cached \<Rightarrow> (case mCached s of None \<Rightarrow> None
                    | Some c \<Rightarrow>
                        Some (cached_getObjectSlotList c objectSlotListSize objectSlotList, s))
      | Compiled \<Rightarrow> (case mCompiled s of None \<Rightarrow> None
                      | Some c \<Rightarrow>
                          Some (compiled_getObjectSlotList c objectSlotListSize objectSlotList, s))
      | Unknown \<Rightarrow> Some (objectSlotList, s\<lparr>mErrorCode := BCC_INVALID_OPERATION\<rparr>))"

definition getELFSize :: "Script \<Rightarrow> size_t option" where
  "getELFSize s =
     (case mStatus s of
        Compiled \<Rightarrow> (case mCompiled s of None \<Rightarrow> None | Some c \<Rightarrow> Some (compiled_getELFSize c))
      | Cached \<Rightarrow> (case mCached s of None \<Rightarrow> None | Some c \<Rightarrow> Some (cached_getELFSize c))
      | Unknown \<Rightarrow> Some 0)"

definition getELF :: "Script \<Rightarrow> string option option" where
  "getELF s =
     (case mStatus s of
        Compiled \<Rightarrow> (case mCompiled s of None \<Rightarrow> None | Some c \<Rightarrow> Some (compiled_getELF c))
      | Cached \<Rightarrow> (case mCached s of None \<Rightarrow> None | Some c \<Rightarrow> Some (cached_getELF c))
      | Unknown \<Rightarrow> Some None)"

subsection \<open>Files\<close>

text \<open>
  Modelled from the spec: \<^verbatim>\<open>FileHandle\<close> (in \<^verbatim>\<open>FileHandle.h\<close>, not part of the sources) and
  \<^verbatim>\<open>unlink\<close>. Whether the system lets a file be opened, and how many bytes a write stores, is
  the environment's answer. Opening for reading needs the file to exist; opening for writing
  creates it empty; a write leaves the bytes that were stored; \<^verbatim>\<open>unlink\<close> removes the name and
  reports whether there was one; \<^verbatim>\<open>close\<close> changes no file.
\<close>

definition FileHandle_open :: "Ext \<Rightarrow> path \<Rightarrow> OpenMode \<Rightarrow> World \<Rightarrow> int \<times> World" where
  "FileHandle_open x p m w =
     (let r = open_result x p m
      in if r < 0 then (r, w)
         else (case m of
            Read \<Rightarrow> if files w p = None then (- 1, w) else (r, w)
          | Write \<Rightarrow> (r, w\<lparr>files := (files w)(p \<mapsto> [])\<rparr>)))"

definition FileHandle_write ::
  "Ext \<Rightarrow> path \<Rightarrow> string option \<Rightarrow> size_t \<Rightarrow> World \<Rightarrow> int \<times> World"
where
  "FileHandle_write x p buf n w =
     (let r = write_result x p buf n
      in if r \<le> 0 then (r, w)
         else (r, w\<lparr>files := (files w)(p \<mapsto> take (nat r) (case buf of None \<Rightarrow> [] | Some b \<Rightarrow> b))\<rparr>))"

definition FileHandle_truncate :: "path \<Rightarrow> World \<Rightarrow> World" where
  "FileHandle_truncate p w =
     (if files w p = None then w else w\<lparr>files := (files w)(p \<mapsto> [])\<rparr>)"

definition unlink :: "path \<Rightarrow> World \<Rightarrow> int \<times> World" where
  "unlink p w =
     (if files w p = None then (- 1, w) else (0, w\<lparr>files := (files w)(p := None)\<rparr>))"

definition file_contents :: "World \<Rightarrow> path \<Rightarrow> string" where
  "file_contents w p = (case files w p of None \<Rightarrow> [] | Some c \<Rightarrow> c)"

definition size_t_of_ssize_t :: "int \<Rightarrow> size_t" where
  \<comment> \<open>\<^verbatim>\<open>static_cast<size_t>\<close> of an \<^verbatim>\<open>ssize_t\<close>, both 64 bits wide\<close>
  "size_t_of_ssize_t n = nat (n mod 2 ^ 64)"

definition uint32_of_pointer :: "addr option \<Rightarrow> nat" where
  \<comment> \<open>the cast \<^verbatim>\<open>(uint32_t)\<close> of the pointer the callback returns\<close>
  "uint32_of_pointer q = (case q of None \<Rightarrow> 0 | Some a \<Rightarrow> a mod 2 ^ 32)"

subsection \<open>Cache eligibility\<close>

definition getBooleanProp :: "Ext \<Rightarrow> string \<Rightarrow> bool" where
  "getBooleanProp x str = (property_get x str ''0'' \<noteq> ''0'')"

definition isCacheable :: "Ext \<Rightarrow> Script \<Rightarrow> bool" where
  "isCacheable x s =
     (if getBooleanProp x ''debug.bcc.nocache'' then False
      else if mCacheDir s = [] \<or> mCacheName s = [] then False
      else True)"

definition getCachedObjectPath :: "Ext \<Rightarrow> Script \<Rightarrow> path" where
  "getCachedObjectPath x s = cachedObjectPath x (mCacheDir s) (mCacheName s)"

definition getCacheInfoPath :: "Ext \<Rightarrow> Script \<Rightarrow> path" where
  "getCacheInfoPath x s = cacheInfoPath x (mCacheDir s) (mCacheName s)"

definition sourceDependencies :: "Ext \<Rightarrow> Script \<Rightarrow> Dependency list" where
  \<comment> \<open>the loop over \<^verbatim>\<open>mSourceList[0]\<close> and \<^verbatim>\<open>mSourceList[1]\<close> calling \<^verbatim>\<open>introDependency\<close>\<close>
  "sourceDependencies x s =
     (case mSourceList s ! 0 of None \<Rightarrow> [] | Some si \<Rightarrow> introDependency x si) @
     (case mSourceList s ! 1 of None \<Rightarrow> [] | Some si \<Rightarrow> introDependency x si)"

definition libraryDependencies :: "Ext \<Rightarrow> Dependency list" where
  "libraryDependencies x =
     [(BCC_FILE_RESOURCE x, pathLibBCC_SHA1 x, sha1LibBCC_SHA1 x),
      (BCC_FILE_RESOURCE x, pathLibRS x, sha1LibRS x)]"

subsection \<open>Loading the cache\<close>

definition internalLoadCache ::
  "Ext \<Rightarrow> string option \<Rightarrow> string option \<Rightarrow> bool \<Rightarrow> Script \<Rightarrow> World
     \<Rightarrow> int \<times> Script \<times> World"
where
  "internalLoadCache x cacheDir cacheName checkOnly s w =
     (case cacheDir of
        None \<Rightarrow> (1, s, w)
      | Some cd \<Rightarrow>
     (case cacheName of
        None \<Rightarrow> (1, s, w)
      | Some cn \<Rightarrow>
     (let s1 = s\<lparr>mCacheName := cn\<rparr>;
          s2 = s1\<lparr>mCacheDir := cd\<rparr>;
          s3 = (if mCacheDir s2 \<noteq> [] \<and> last (mCacheDir s2) \<noteq> CHR ''/''
                then s2\<lparr>mCacheDir := mCacheDir s2 @ [CHR ''/'']\<rparr> else s2)
      in if \<not> isCacheable x s3 then (1, s3, w)
         else
     (let objPath = getCachedObjectPath x s3;
          infoPath = getCacheInfoPath x s3;
          (objFd, w1) = FileHandle_open x objPath Read w
      in if objFd < 0 then (1, s3, w1)
         else
     (let (infoFd, w2) = FileHandle_open x infoPath Read w1
      in if infoFd < 0 then (1, s3, w2)
         else
     (let reader =
            \<lparr>reader_callback =
               (case mpExtSymbolLookupFn s3 of None \<Rightarrow> None
                | Some fn \<Rightarrow> Some (fn, mpExtSymbolLookupFnContext s3)),
             reader_dependencies = libraryDependencies x @ sourceDependencies x s3\<rparr>;
          obj = file_contents w2 objPath;
          info = file_contents w2 infoPath
      in if checkOnly then ((if checkCacheFile x reader obj info s3 then 0 else 1), s3, w2)
         else
     (case readCacheFile x reader obj info s3 of
        None \<Rightarrow>
          (1, s3\<lparr>mIsContextSlotNotAvail := isContextSlotNotAvail x reader obj info s3\<rparr>, w2)
      | Some cached \<Rightarrow>
          (let s4 = s3\<lparr>mCached := Some cached\<rparr>;
               s5 = s4\<lparr>mStatus := Cached\<rparr>
           in (case mpExtSymbolLookupFn s5 of
                 Some fn \<Rightarrow>
                   if \<not> cached_isLibRSThreadable cached
                   then (0, s5, w2\<lparr>symbol_calls := symbol_calls w2 @
                           [(fn, mpExtSymbolLookupFnContext s5, ''__clearThreadable'')]\<rparr>)
                   else (0, s5, w2)
               | None \<Rightarrow> (0, s5, w2))))))))))"

subsection \<open>The compile pipeline\<close>

definition ScriptCompiled_registerSymbolCallback ::
  "addr \<Rightarrow> addr option \<Rightarrow> ScriptCompiled \<Rightarrow> ScriptCompiled"
where
  "ScriptCompiled_registerSymbolCallback pFn pContext c =
     c\<lparr>compiled_callback := Some (pFn, pContext)\<rparr>"

definition internalCompile :: "Ext \<Rightarrow> CompilerOption \<Rightarrow> Script \<Rightarrow> int \<times> Script" where
  "internalCompile x option s =
     (let s1 = s\<lparr>mCompiled := new_ScriptCompiled x\<rparr>
      in case mCompiled s1 of
        None \<Rightarrow> (1, s1\<lparr>mErrorCode := BCC_OUT_OF_MEMORY\<rparr>)
      | Some c0 \<Rightarrow>
     (let s2 = s1\<lparr>mStatus := Compiled\<rparr>;
          c1 = (case mpExtSymbolLookupFn s2 of
                  None \<Rightarrow> c0
                | Some fn \<Rightarrow>
                    ScriptCompiled_registerSymbolCallback fn (mpExtSymbolLookupFnContext s2) c0);
          s3 = s2\<lparr>mCompiled := Some c1\<rparr>
      in case mSourceList s3 ! 0 of
        None \<Rightarrow> (1, s3)
      | Some src0 \<Rightarrow>
     (let (r0, src0') = prepareModule x src0 None;
          s4 = s3\<lparr>mSourceList := (mSourceList s3)[0 := Some src0']\<rparr>
      in if r0 \<noteq> 0 then (1, s4)
         else
     (let (r1, s5) =
            (case mSourceList s4 ! 1 of
               None \<Rightarrow> (0, s4)
             | Some src1 \<Rightarrow>
                 (let (r, src1') = prepareModule x src1 (src_context src0')
                  in (r, s4\<lparr>mSourceList := (mSourceList s4)[1 := Some src1']\<rparr>)))
      in if r1 \<noteq> 0 then (1, s5)
         else
     (let (r2, c2) = readModule x (src_module src0') c1;
          s6 = s5\<lparr>mCompiled := Some c2\<rparr>
      in if r2 \<noteq> 0 then (1, s6)
         else
     (let (r3, c3) =
            (case mSourceList s6 ! 1 of
               None \<Rightarrow> (0, c2)
             | Some src1 \<Rightarrow> linkModule x (src_module src1) c2);
          s7 = s6\<lparr>mCompiled := Some c3\<rparr>
      in if r3 \<noteq> 0 then (1, s7)
         else
     (let (r4, c4) = compile x option c3;
          s8 = s7\<lparr>mCompiled := Some c4\<rparr>
      in if r4 \<noteq> 0 then (1, s8) else (0, s8))))))))"

subsection \<open>Writing the cache\<close>

definition writeCache :: "Ext \<Rightarrow> Script \<Rightarrow> World \<Rightarrow> (int \<times> Script \<times> World) option" where
  "writeCache x s w =
     (if mStatus s \<noteq> Compiled then Some (1, s, w)
      else (case getCompilerErrorMessage s of
        None \<Rightarrow> None
      | Some (msg, s1) \<Rightarrow>
          if msg = None then Some (1, s1, w)
          else if \<not> isCacheable x s1 then Some (0, s1, w)
          else
     (let objPath = getCachedObjectPath x s1;
          infoPath = getCacheInfoPath x s1;
          w1 = snd (unlink objPath w);
          w2 = snd (unlink infoPath w1);
          (objFd, w3) = FileHandle_open x objPath Write w2
      in if \<not> 0 \<le> objFd then Some (0, s1, w3)
         else
     (let (infoFd, w4) = FileHandle_open x infoPath Write w3
      in if \<not> 0 \<le> infoFd then Some (0, s1, w4)
         else
     (let writer =
            (if TARGET_BUILD x then libraryDependencies x else []) @ sourceDependencies x s1;
          (libRS_threadable, w5) =
            (case mpExtSymbolLookupFn s1 of
               None \<Rightarrow> (0, w4)
             | Some fn \<Rightarrow>
                 (uint32_of_pointer
                    (symbolLookupFn x fn (mpExtSymbolLookupFnContext s1) ''__isThreadable''),
                  w4\<lparr>symbol_calls := symbol_calls w4 @
                       [(fn, mpExtSymbolLookupFnContext s1, ''__isThreadable'')]\<rparr>));
          (written, objBytes, infoBytes) = writeCacheFile x writer s1 libRS_threadable;
          w6 = w5\<lparr>files := (files w5)(objPath \<mapsto> objBytes, infoPath \<mapsto> infoBytes)\<rparr>
      in if \<not> written
         then
           (let w7 = snd (unlink objPath (FileHandle_truncate objPath w6));
                w8 = snd (unlink infoPath (FileHandle_truncate infoPath w7))
            in Some (0, s1, w8))
         else Some (0, s1, w6))))))"

subsection \<open>Finalization\<close>

definition prepareRelocatable ::
  "Ext \<Rightarrow> path \<Rightarrow> nat \<Rightarrow> nat \<Rightarrow> Script \<Rightarrow> World \<Rightarrow> (int \<times> Script \<times> World) option"
where
  "prepareRelocatable x objPath RelocModel flags s w =
     (let option = (CompilerOption_new x)\<lparr>RelocModelOpt := RelocModel, LoadAfterCompile := False\<rparr>;
          (status, s1) = internalCompile x option s
      in if status \<noteq> 0
         then (case getCompilerErrorMessage s1 of
                 None \<Rightarrow> None
               | Some (msg, s2) \<Rightarrow> Some (status, s2, w))
         else
     (let (fd, w1) = FileHandle_open x objPath Write w
      in if fd < 0 then Some (1, s1, w1)
         else
     (case getELF s1 of
        None \<Rightarrow> None
      | Some elf \<Rightarrow>
     (case getELFSize s1 of
        None \<Rightarrow> None
      | Some elfSize \<Rightarrow>
     (let (n, w2) = FileHandle_write x objPath elf elfSize w1
      in if size_t_of_ssize_t n \<noteq> elfSize
         then Some (0, s1, snd (unlink objPath w2))
         else Some (0, s1\<lparr>mObjectType := Relocatable\<rparr>, w2))))))"

definition prepareSharedObject ::
  "path \<Rightarrow> path \<Rightarrow> nat \<Rightarrow> Script \<Rightarrow> int \<times> Script"
where
  "prepareSharedObject objPath dsoPath flags s = (1, s)"

definition registerObjectWithGDB :: "string option \<Rightarrow> size_t \<Rightarrow> World \<Rightarrow> World" where
  "registerObjectWithGDB elf elfSize w = w\<lparr>gdb_registry := gdb_registry w @ [(elf, elfSize)]\<rparr>"

definition prepareExecutable_register ::
  "int \<Rightarrow> Script \<Rightarrow> World \<Rightarrow> (int \<times> Script \<times> World) option"
where
  \<comment> \<open>the end of \<^verbatim>\<open>prepareExecutable\<close>, from the registration with the debugger on\<close>
  "prepareExecutable_register status s w =
     (case getELF s of
        None \<Rightarrow> None
      | Some elf \<Rightarrow>
     (case getELFSize s of
        None \<Rightarrow> None
      | Some elfSize \<Rightarrow>
          Some (status, s\<lparr>mObjectType := Executable\<rparr>, registerObjectWithGDB elf elfSize w)))"

definition prepareExecutable ::
  "Ext \<Rightarrow> string option \<Rightarrow> string option \<Rightarrow> nat \<Rightarrow> Script \<Rightarrow> World
     \<Rightarrow> (int \<times> Script \<times> World) option"
where
  "prepareExecutable x cacheDir cacheName flags s w =
     (if mStatus s \<noteq> Unknown then Some (1, s\<lparr>mErrorCode := BCC_INVALID_OPERATION\<rparr>, w)
      else
     (let (status0, s1, w1) = internalLoadCache x cacheDir cacheName False s w
      in if status0 \<noteq> 0
         then
           (let (status1, s2) = internalCompile x (CompilerOption_new x) s1
            in if status1 \<noteq> 0
               then (case getCompilerErrorMessage s2 of
                       None \<Rightarrow> None
                     | Some (msg, s3) \<Rightarrow> Some (status1, s3, w1))
               else (case writeCache x s2 w1 of
                       None \<Rightarrow> None
                     | Some (status2, s3, w2) \<Rightarrow>
                         if status2 \<noteq> 0 then Some (status2, s3, w2)
                         else prepareExecutable_register status2 s3 w2))
         else prepareExecutable_register status0 s1 w1))"

subsection \<open>Sequences of calls\<close>

text \<open>
  What a host can do to a Script: the member functions \<^verbatim>\<open>Script.cpp\<close> defines, but for the two
  helpers \<^verbatim>\<open>internalLoadCache\<close> and \<^verbatim>\<open>internalCompile\<close>, each with its arguments. A call is made
  in an environment of its own, since the collaborators may answer differently from one call
  to the next. \<open>call\<close> keeps the Script and the world after the call and drops the returned
  value; \<open>calls\<close> makes the calls of a list in order and is \<open>None\<close> when one of them faults.
\<close>

datatype ScriptCall =
    AddSourceBC nat "string option" "string option" size_t nat
  | AddSourceModule nat "addr option" nat
  | AddSourceFile nat "path option" nat
  | PrepareRelocatable path nat nat
  | PrepareSharedObject path path nat
  | PrepareExecutable "string option" "string option" nat
  | WriteCache
  | GetCompilerErrorMessage
  | Lookup string
  | GetExportVarCount
  | GetExportFuncCount
  | GetExportForEachCount
  | GetPragmaCount
  | GetFuncCount
  | GetObjectSlotCount
  | GetExportVarList size_t "addr option list"
  | GetExportVarNameList "string list"
  | GetExportFuncList size_t "addr option list"
  | GetExportFuncNameList "string list"
  | GetExportForEachList size_t "addr option list"
  | GetExportForEachNameList "string list"
  | GetPragmaList size_t "string list \<times> string list"
  | GetFuncInfoList size_t "FuncInfo list"
  | GetObjectSlotList size_t "nat list"
  | RegisterSymbolCallback "addr option" "addr option"

definition after_query :: "World \<Rightarrow> ('a \<times> Script) option \<Rightarrow> (Script \<times> World) option" where
  "after_query w q = (case q of None \<Rightarrow> None | Some (r, s') \<Rightarrow> Some (s', w))"

definition after_prepare ::
  "(int \<times> Script \<times> World) option \<Rightarrow> (Script \<times> World) option"
where
  "after_prepare q = (case q of None \<Rightarrow> None | Some (r, s', w') \<Rightarrow> Some (s', w'))"

fun call :: "Ext \<Rightarrow> ScriptCall \<Rightarrow> Script \<Rightarrow> World \<Rightarrow> (Script \<times> World) option" where
  "call x (AddSourceBC idx resName bitcode bitcodeSize flags) s w =
     Some (snd (addSourceBC x idx resName bitcode bitcodeSize flags s), w)"
| "call x (AddSourceModule idx module flags) s w =
     Some (snd (addSourceModule x idx module flags s), w)"
| "call x (AddSourceFile idx pth flags) s w =
     Some (snd (addSourceFile x idx pth flags s), w)"
| "call x (PrepareRelocatable objPath RelocModel flags) s w =
     after_prepare (prepareRelocatable x objPath RelocModel flags s w)"
| "call x (PrepareSharedObject objPath dsoPath flags) s w =
     Some (snd (prepareSharedObject objPath dsoPath flags s), w)"
| "call x (PrepareExecutable cacheDir cacheName flags) s w =
     after_prepare (prepareExecutable x cacheDir cacheName flags s w)"
| "call x WriteCache s w = after_prepare (writeCache x s w)"
| "call x GetCompilerErrorMessage s w = after_query w (getCompilerErrorMessage s)"
| "call x (Lookup name) s w = after_query w (lookup name s)"
| "call x GetExportVarCount s w = after_query w (getExportVarCount s)"
| "call x GetExportFuncCount s w = after_query w (getExportFuncCount s)"
| "call x GetExportForEachCount s w = after_query w (getExportForEachCount s)"
| "call x GetPragmaCount s w = after_query w (getPragmaCount s)"
| "call x GetFuncCount s w = after_query w (getFuncCount s)"
| "call x GetObjectSlotCount s w = after_query w (getObjectSlotCount s)"
| "call x (GetExportVarList n buf) s w = after_query w (getExportVarList n buf s)"
| "call x (GetExportVarNameList names) s w = after_query w (getExportVarNameList names s)"
| "call x (GetExportFuncList n buf) s w = after_query w (getExportFuncList n buf s)"
| "call x (GetExportFuncNameList names) s w = after_query w (getExportFuncNameList names s)"
| "call x (GetExportForEachList n buf) s w = after_query w (getExportForEachList n buf s)"
| "call x (GetExportForEachNameList names) s w =
     after_query w (getExportForEachNameList names s)"
| "call x (GetPragmaList n buf) s w = after_query w (getPragmaList n buf s)"
| "call x (GetFuncInfoList n buf) s w = after_query w (getFuncInfoList n buf s)"
| "call x (GetObjectSlotList n buf) s w = after_query w (getObjectSlotList n buf s)"
| "call x (RegisterSymbolCallback pFn pContext) s w =
     Some (snd (registerSymbolCallback pFn pContext s), w)"

fun calls :: "(Ext \<times> ScriptCall) list \<Rightarrow> Script \<Rightarrow> World \<Rightarrow> (Script \<times> World) option" where
  "calls [] s w = Some (s, w)"
| "calls ((x, c) # cs) s w =
     (case call x c s w of None \<Rightarrow> None | Some (s', w') \<Rightarrow> calls cs s' w')"

definition compiled_live :: "Script \<Rightarrow> bool" where
  \<comment> \<open>in state Compiled with a live compiled artifact\<close>
  "compiled_live s = (mStatus s = Compiled \<and> mCompiled s \<noteq> None)"

subsection \<open>The artifact invariant\<close>

text \<open>
  The invariant of the specification's data model: the status tag and the two artifact
  pointers agree, and at most one artifact is live.
\<close>

definition artifact_invariant :: "Script \<Rightarrow> bool" where
  "artifact_invariant s =
     (case mStatus s of
        Unknown \<Rightarrow> mCompiled s = None \<and> mCached s = None
      | Compiled \<Rightarrow> mCompiled s \<noteq> None \<and> mCached s = None
      | Cached \<Rightarrow> mCached s \<noteq> None \<and> mCompiled s = None)"

subsection \<open>A concrete environment\<close>

text \<open>
  One environment in which every collaborator succeeds, with one artifact of each kind, to
  run the functions on: the backend produces a four-byte object, a write stores every byte,
  the cache files of \<open>(dir, name)\<close> are \<open>dir @ name @ ''.o''\<close> and \<open>dir @ name @ ''.info''\<close>, and
  the cache reader accepts what it is given. Variations are record updates of it.
\<close>

definition compiled0 :: ScriptCompiled where
  "compiled0 =
     \<lparr>compiled_callback = None,
      compiled_getCompilerErrorMessage = Some [],
      compiled_lookup = (\<lambda>name. if name = ''root'' then Some 4096 else None),
      compiled_getExportVarCount = 1,
      compiled_getExportFuncCount = 1,
      compiled_getExportForEachCount = 1,
      compiled_getPragmaCount = 1,
      compiled_getFuncCount = 1,
      compiled_getObjectSlotCount = 1,
      compiled_getExportVarList = (\<lambda>n buf. take n [Some 8192] @ drop (min n 1) buf),
      compiled_getExportVarNameList = (\<lambda>names. names @ [''gVar'']),
      compiled_getExportFuncList = (\<lambda>n buf. take n [Some 4096] @ drop (min n 1) buf),
      compiled_getExportFuncNameList = (\<lambda>names. names @ [''root'']),
      compiled_getExportForEachList = (\<lambda>n buf. take n [Some 4100] @ drop (min n 1) buf),
      compiled_getExportForEachNameList = (\<lambda>names. names @ [''kernel'']),
      compiled_getPragmaList = (\<lambda>n kv. ([''version''], [''1''])),
      compiled_getFuncInfoList =
        (\<lambda>n buf. take n [\<lparr>fi_name = ''root'', fi_addr = Some 4096, fi_size = 4\<rparr>]
                   @ drop (min n 1) buf),
      compiled_getObjectSlotList = (\<lambda>n buf. take n [0] @ drop (min n 1) buf),
      compiled_getELF = Some ''ELF!'',
      compiled_getELFSize = 4\<rparr>"

definition cached0 :: ScriptCached where
  "cached0 =
     \<lparr>cached_isLibRSThreadable = True,
      cached_lookup = (\<lambda>name. if name = ''root'' then Some 4096 else None),
      cached_getExportVarCount = 1,
      cached_getExportFuncCount = 1,
      cached_getExportForEachCount = 1,
      cached_getPragmaCount = 1,
      cached_getFuncCount = 1,
      cached_getObjectSlotCount = 1,
      cached_getExportVarList = (\<lambda>n buf. take n [Some 8192] @ drop (min n 1) buf),
      cached_getExportFuncList = (\<lambda>n buf. take n [Some 4096] @ drop (min n 1) buf),
      cached_getExportForEachList = (\<lambda>n buf. take n [Some 4100] @ drop (min n 1) buf),
      cached_getPragmaList = (\<lambda>n kv. ([''version''], [''1''])),
      cached_getFuncInfoList =
        (\<lambda>n buf. take n [\<lparr>fi_name = ''root'', fi_addr = Some 4096, fi_size = 4\<rparr>]
                   @ drop (min n 1) buf),
      cached_getObjectSlotList = (\<lambda>n buf. take n [0] @ drop (min n 1) buf),
      cached_getELF = Some ''ELF!'',
      cached_getELFSize = 4\<rparr>"

definition ext0 :: Ext where
  "ext0 =
     \<lparr>TARGET_BUILD = True,
      property_get = (\<lambda>name dflt. dflt),
      stat = (\<lambda>p. 0),
      createFromBuffer =
        (\<lambda>resName bitcode bitcodeSize flags.
           Some \<lparr>src_origin = FromBuffer resName bitcode bitcodeSize, src_flags = flags,
                 src_module = None, src_context = None\<rparr>),
      createFromModule =
        (\<lambda>m flags. Some \<lparr>src_origin = FromModule m, src_flags = flags,
                            src_module = Some m, src_context = None\<rparr>),
      createFromFile =
        (\<lambda>p flags. Some \<lparr>src_origin = FromFile p, src_flags = flags,
                            src_module = None, src_context = None\<rparr>),
      CompilerOption_new = \<lparr>RelocModelOpt = 0, LoadAfterCompile = True\<rparr>,
      new_ScriptCompiled = Some compiled0,
      prepareModule =
        (\<lambda>si ctx. (0, si\<lparr>src_module := Some 1,
                              src_context := (case ctx of None \<Rightarrow> Some 2 | Some c \<Rightarrow> Some c)\<rparr>)),
      readModule = (\<lambda>m c. (0, c)),
      linkModule = (\<lambda>m c. (0, c)),
      compile = (\<lambda>opt c. (0, c)),
      introDependency = (\<lambda>si. []),
      BCC_FILE_RESOURCE = 0,
      pathLibBCC_SHA1 = ''/system/lib/libbcc.so.sha1'',
      sha1LibBCC_SHA1 = ''a'',
      pathLibRS = ''/system/lib/libRS.so'',
      sha1LibRS = ''b'',
      cachedObjectPath = (\<lambda>dir name. dir @ name @ ''.o''),
      cacheInfoPath = (\<lambda>dir name. dir @ name @ ''.info''),
      open_result = (\<lambda>p m. 3),
      write_result = (\<lambda>p buf n. int n),
      checkCacheFile = (\<lambda>reader obj info s. True),
      readCacheFile = (\<lambda>reader obj info s. Some cached0),
      isContextSlotNotAvail = (\<lambda>reader obj info s. False),
      writeCacheFile = (\<lambda>writer s threadable. (True, ''obj'', ''info'')),
      symbolLookupFn = (\<lambda>fn ctx name. None)\<rparr>"

definition world0 :: World where
  "world0 = \<lparr>files = Map.empty, gdb_registry = [], symbol_calls = []\<rparr>"

definition world_cached :: World where
  \<open>world_cached = world0\<lparr>files := [''/c/s1.o'' \<mapsto> ''obj'', ''/c/s1.info'' \<mapsto> ''info'']\<rparr>\<close>

definition script_src :: Script where
  \<comment> \<open>a new Script after \<^verbatim>\<open>addSourceBC(0, "s1", "BC", 2, 0)\<close>\<close>
  "script_src = snd (addSourceBC ext0 0 (Some ''s1'') (Some ''BC'') 2 0 Script_new)"

definition script_compiled :: Script where
  \<comment> \<open>a new Script after a pipeline that stopped for want of a source\<close>
  "script_compiled = Script_new\<lparr>mStatus := Compiled, mCompiled := Some compiled0\<rparr>"

definition script_cached :: Script where
  \<comment> \<open>\<open>script_src\<close> after a \<^verbatim>\<open>prepareExecutable("/c", "s1", 0)\<close> that finds the cache\<close>
  "script_cached =
     script_src\<lparr>mCacheName := ''s1'', mCacheDir := ''/c/'', mCached := Some cached0,
                mStatus := Cached, mObjectType := Executable\<rparr>"

definition world_registered :: World where
  "world_registered = world_cached\<lparr>gdb_registry := [(Some ''ELF!'', 4)]\<rparr>"

definition ext_null_message :: Ext where
  \<comment> \<open>the backend's error message is the null pointer when there was no error\<close>
  "ext_null_message =
     ext0\<lparr>new_ScriptCompiled := Some (compiled0\<lparr>compiled_getCompilerErrorMessage := None\<rparr>)\<rparr>"

definition ext_short_write :: Ext where
  \<comment> \<open>every write stores two bytes\<close>
  "ext_short_write = ext0\<lparr>write_result := (\<lambda>p buf n. 2)\<rparr>"

definition ext_cache_unwritable :: Ext where
  \<comment> \<open>no file can be opened for writing\<close>
  "ext_cache_unwritable =
     ext0\<lparr>open_result := (\<lambda>p m. case m of Read \<Rightarrow> 3 | Write \<Rightarrow> - 1)\<rparr>"

section \<open>Properties\<close>

subsection \<open>Unfolding and evaluation\<close>

lemmas eval_defs =
  prepareExecutable_def internalLoadCache_def isCacheable_def getBooleanProp_def
  getCachedObjectPath_def getCacheInfoPath_def FileHandle_open_def FileHandle_write_def Let_def
  file_contents_def libraryDependencies_def sourceDependencies_def
  prepareExecutable_register_def getELF_def getELFSize_def registerObjectWithGDB_def
  internalCompile_def writeCache_def getCompilerErrorMessage_def unlink_def
  uint32_of_pointer_def FileHandle_truncate_def prepareRelocatable_def size_t_of_ssize_t_def
  ScriptCompiled_registerSymbolCallback_def addSourceBC_def

lemmas concrete_defs =
  ext0_def compiled0_def cached0_def world0_def world_cached_def script_src_def Script_new_def
  ext_null_message_def ext_short_write_def ext_cache_unwritable_def script_cached_def
  world_registered_def

lemmas query_defs =
  getExportVarCount_def getExportFuncCount_def getExportForEachCount_def
  getPragmaCount_def getFuncCount_def getObjectSlotCount_def getExportVarList_def
  getExportFuncList_def getExportForEachList_def getPragmaList_def getFuncInfoList_def
  getObjectSlotList_def getExportVarNameList_def getExportFuncNameList_def
  getExportForEachNameList_def

lemma script_src_fields:
  "mStatus script_src = Unknown" "mCompiled script_src = None" "mCached script_src = None"
  "mErrorCode script_src = BCC_NO_ERROR"
  by (simp_all add: script_src_def addSourceBC_def ext0_def Script_new_def)

lemma prepareExecutable_hit:
  "prepareExecutable ext0 (Some ''/c'') (Some ''s1'') 0 script_src world_cached
     = Some (0, script_cached, world_registered)"
  by (simp add: eval_defs concrete_defs)

subsection \<open>What each internal step leaves behind\<close>

lemma internalLoadCache_cacheDir:
  "internalLoadCache x (Some cd) (Some cn) chk s w = (r, s', w') \<Longrightarrow>
   mCacheDir s' = (if cd \<noteq> [] \<and> last cd \<noteq> CHR ''/'' then cd @ ''/'' else cd)"
  by (auto simp: internalLoadCache_def Let_def split: if_splits prod.splits option.splits)

lemma internalLoadCache_miss:
  "internalLoadCache x cacheDir cacheName False s w = (r, s', w') \<Longrightarrow> r \<noteq> 0 \<Longrightarrow>
   r = 1 \<and> mStatus s' = mStatus s \<and> mCompiled s' = mCompiled s \<and> mCached s' = mCached s \<and>
   mSourceList s' = mSourceList s \<and> mErrorCode s' = mErrorCode s \<and>
   mpExtSymbolLookupFn s' = mpExtSymbolLookupFn s"
  by (auto simp: internalLoadCache_def Let_def split: if_splits prod.splits option.splits)

lemma internalLoadCache_hit:
  "internalLoadCache x cacheDir cacheName False s w = (0, s', w') \<Longrightarrow>
   mStatus s' = Cached \<and> (\<exists>k. mCached s' = Some k) \<and> mCompiled s' = mCompiled s \<and>
   mSourceList s' = mSourceList s \<and> mErrorCode s' = mErrorCode s"
  by (auto simp: internalLoadCache_def Let_def split: if_splits prod.splits option.splits)

lemma internalCompile_alloc_failure:
  "new_ScriptCompiled x = None \<Longrightarrow>
   internalCompile x option s = (1, s\<lparr>mCompiled := None, mErrorCode := BCC_OUT_OF_MEMORY\<rparr>)"
  by (simp add: internalCompile_def)

lemma internalCompile_allocated:
  "new_ScriptCompiled x = Some c0 \<Longrightarrow> internalCompile x option s = (r, s') \<Longrightarrow>
   mStatus s' = Compiled \<and> (\<exists>c. mCompiled s' = Some c) \<and> mCached s' = mCached s \<and>
   mErrorCode s' = mErrorCode s \<and> mCacheDir s' = mCacheDir s \<and> mCacheName s' = mCacheName s \<and>
   (r = 0 \<or> r = 1)"
  by (auto simp: internalCompile_def Let_def split: if_splits prod.splits option.splits)

lemma internalCompile_success:
  "internalCompile x option s = (0, s') \<Longrightarrow>
   mStatus s' = Compiled \<and> (\<exists>c. mCompiled s' = Some c) \<and> mCached s' = mCached s \<and>
   mErrorCode s' = mErrorCode s \<and> mCacheDir s' = mCacheDir s"
  by (auto simp: internalCompile_def Let_def split: if_splits prod.splits option.splits)

lemma internalCompile_cacheDir:
  "internalCompile x option s = (r, s') \<Longrightarrow> mCacheDir s' = mCacheDir s"
  by (auto simp: internalCompile_def Let_def split: if_splits prod.splits option.splits)

lemma writeCache_status:
  "mStatus s = Compiled \<Longrightarrow> mCompiled s = Some c \<Longrightarrow>
   \<exists>w'. writeCache x s w =
     Some ((if compiled_getCompilerErrorMessage c = None then 1 else 0), s, w')"
  by (auto simp: writeCache_def getCompilerErrorMessage_def Let_def split: if_splits prod.splits option.splits)

lemma prepareExecutable_register_compiled:
  "mStatus s = Compiled \<Longrightarrow> mCompiled s = Some c \<Longrightarrow>
   prepareExecutable_register status s w =
     Some (status, s\<lparr>mObjectType := Executable\<rparr>,
           registerObjectWithGDB (compiled_getELF c) (compiled_getELFSize c) w)"
  by (simp add: prepareExecutable_register_def getELF_def getELFSize_def)

lemma prepareExecutable_register_cached:
  "mStatus s = Cached \<Longrightarrow> mCached s = Some k \<Longrightarrow>
   prepareExecutable_register status s w =
     Some (status, s\<lparr>mObjectType := Executable\<rparr>,
           registerObjectWithGDB (cached_getELF k) (cached_getELFSize k) w)"
  by (simp add: prepareExecutable_register_def getELF_def getELFSize_def)

lemma getCompilerErrorMessage_not_compiled:
  "mStatus s \<noteq> Compiled \<Longrightarrow>
   getCompilerErrorMessage s = Some (None, s\<lparr>mErrorCode := BCC_INVALID_OPERATION\<rparr>)"
  by (simp add: getCompilerErrorMessage_def)

lemma getCompilerErrorMessage_compiled:
  "mStatus s = Compiled \<Longrightarrow> mCompiled s = Some c \<Longrightarrow>
   getCompilerErrorMessage s = Some (compiled_getCompilerErrorMessage c, s)"
  by (simp add: getCompilerErrorMessage_def)

lemma prepareExecutable_finalized:
  "mStatus s \<noteq> Unknown \<Longrightarrow>
   prepareExecutable x cacheDir cacheName flags s w
     = Some (1, s\<lparr>mErrorCode := BCC_INVALID_OPERATION\<rparr>, w)"
  by (simp add: prepareExecutable_def)

subsection \<open>The status never returns to Unknown\<close>

lemma internalCompile_result:
  "internalCompile x option s = (r, s') \<Longrightarrow> r = 0 \<or> r = 1"
  by (auto simp: internalCompile_def Let_def split: if_splits prod.splits option.splits)

lemma internalCompile_keeps_finalized:
  "internalCompile x option s = (r, s') \<Longrightarrow> mStatus s \<noteq> Unknown \<Longrightarrow> mStatus s' \<noteq> Unknown"
  by (auto simp: internalCompile_def Let_def split: if_splits prod.splits option.splits)

lemma internalLoadCache_keeps_finalized:
  "internalLoadCache x cacheDir cacheName checkOnly s w = (r, s', w') \<Longrightarrow>
   mStatus s \<noteq> Unknown \<Longrightarrow> mStatus s' \<noteq> Unknown"
  by (auto simp: internalLoadCache_def Let_def split: if_splits prod.splits option.splits)

lemma getCompilerErrorMessage_status:
  "getCompilerErrorMessage s = Some (msg, s') \<Longrightarrow>
   mStatus s' = mStatus s \<and> mCompiled s' = mCompiled s \<and> mCached s' = mCached s"
  by (auto simp: getCompilerErrorMessage_def split: if_splits option.splits)

lemma prepareRelocatable_keeps_finalized:
  assumes "prepareRelocatable x objPath RelocModel flags s w = Some (r, s', w')"
    and "mStatus s \<noteq> Unknown"
  shows "mStatus s' \<noteq> Unknown"
proof -
  let ?opt = "(CompilerOption_new x)\<lparr>RelocModelOpt := RelocModel, LoadAfterCompile := False\<rparr>"
  obtain st s1 where comp: "internalCompile x ?opt s = (st, s1)" by (metis surj_pair)
  from internalCompile_keeps_finalized [OF comp assms(2)] have "mStatus s1 \<noteq> Unknown" .
  with assms(1) comp show ?thesis
    by (auto simp: prepareRelocatable_def Let_def
        split: if_splits prod.splits option.splits dest: getCompilerErrorMessage_status)
qed

lemma prepareExecutable_keeps_finalized:
  "prepareExecutable x cacheDir cacheName flags s w = Some (r, s', w') \<Longrightarrow>
   mStatus s \<noteq> Unknown \<Longrightarrow> mStatus s' \<noteq> Unknown"
  by (auto simp: prepareExecutable_def)

subsection \<open>The two failures of writing a relocatable object\<close>

lemma prepareRelocatable_open_failure:
  "internalCompile x ((CompilerOption_new x)\<lparr>RelocModelOpt := RelocModel,
      LoadAfterCompile := False\<rparr>) s = (0, s1) \<Longrightarrow>
   open_result x objPath Write < 0 \<Longrightarrow>
   prepareRelocatable x objPath RelocModel flags s w = Some (1, s1, w)"
  by (simp add: prepareRelocatable_def FileHandle_open_def)

lemma prepareRelocatable_short_write:
  assumes comp: "internalCompile x ((CompilerOption_new x)\<lparr>RelocModelOpt := RelocModel,
      LoadAfterCompile := False\<rparr>) s = (0, s1)"
    and op: "0 \<le> open_result x objPath Write"
    and c: "mCompiled s1 = Some c"
    and short: "size_t_of_ssize_t (write_result x objPath (compiled_getELF c) (compiled_getELFSize c))
              \<noteq> compiled_getELFSize c"
  shows "\<exists>w'. prepareRelocatable x objPath RelocModel flags s w = Some (0, s1, w') \<and>
              files w' objPath = None"
proof -
  from internalCompile_success [OF comp] have st: "mStatus s1 = Compiled" by simp
  with comp op c short show ?thesis
    by (simp add: prepareRelocatable_def FileHandle_open_def FileHandle_write_def getELF_def
        getELFSize_def unlink_def Let_def)
qed

subsection \<open>The artifact invariant from state Unknown\<close>

text \<open>
  \<^verbatim>\<open>prepareExecutable\<close> keeps the invariant from every state, and \<^verbatim>\<open>prepareRelocatable\<close> keeps
  it when it is called in state Unknown.
\<close>

lemma internalLoadCache_invariant:
  "internalLoadCache x cacheDir cacheName False s w = (r, s', w') \<Longrightarrow>
   mStatus s = Unknown \<Longrightarrow> artifact_invariant s \<Longrightarrow> artifact_invariant s'"
  by (auto simp: internalLoadCache_def artifact_invariant_def Let_def
      split: if_splits prod.splits option.splits ScriptStatus.splits)

lemma internalCompile_invariant:
  "internalCompile x option s = (r, s') \<Longrightarrow>
   mStatus s = Unknown \<Longrightarrow> artifact_invariant s \<Longrightarrow> artifact_invariant s'"
  by (auto simp: internalCompile_def artifact_invariant_def Let_def
      split: if_splits prod.splits option.splits ScriptStatus.splits)

lemma getCompilerErrorMessage_invariant:
  "getCompilerErrorMessage s = Some (msg, s') \<Longrightarrow> artifact_invariant s \<Longrightarrow> artifact_invariant s'"
  by (auto simp: getCompilerErrorMessage_def artifact_invariant_def
      split: if_splits option.splits ScriptStatus.splits)

lemma writeCache_script:
  "writeCache x s w = Some (r, s', w') \<Longrightarrow> mStatus s = Compiled \<Longrightarrow> s' = s"
  by (auto simp: writeCache_def getCompilerErrorMessage_def Let_def
      split: if_splits prod.splits option.splits)

lemma prepareExecutable_register_invariant:
  "prepareExecutable_register st s w = Some (r, s', w') \<Longrightarrow> artifact_invariant s \<Longrightarrow>
   artifact_invariant s'"
  by (auto simp: prepareExecutable_register_def artifact_invariant_def
      split: option.splits ScriptStatus.splits)

lemma prepareExecutable_invariant:
  assumes run: "prepareExecutable x cacheDir cacheName flags s w = Some (r, s', w')"
    and inv: "artifact_invariant s"
  shows "artifact_invariant s'"
proof (cases "mStatus s = Unknown")
  case False
  with run inv show ?thesis
    by (auto simp: prepareExecutable_def artifact_invariant_def split: ScriptStatus.splits)
next
  case True
  obtain st0 s1 w1 where load: "internalLoadCache x cacheDir cacheName False s w = (st0, s1, w1)"
    by (metis prod_cases3)
  have inv1: "artifact_invariant s1" by (rule internalLoadCache_invariant [OF load True inv])
  show ?thesis
  proof (cases "st0 = 0")
    case True
    with run \<open>mStatus s = Unknown\<close> load inv1 show ?thesis
      by (auto simp: prepareExecutable_def dest: prepareExecutable_register_invariant)
  next
    case False
    with internalLoadCache_miss [OF load] True have st1: "mStatus s1 = Unknown" by simp
    obtain st1 s2 where comp: "internalCompile x (CompilerOption_new x) s1 = (st1, s2)"
      by (metis surj_pair)
    have inv2: "artifact_invariant s2" by (rule internalCompile_invariant [OF comp st1 inv1])
    show ?thesis
    proof (cases "st1 = 0")
      case True
      with internalCompile_success comp have "mStatus s2 = Compiled" by blast
      with run \<open>mStatus s = Unknown\<close> load \<open>st0 \<noteq> 0\<close> comp True inv2 show ?thesis
        by (auto simp: prepareExecutable_def split: option.splits if_splits
            dest!: writeCache_script dest: prepareExecutable_register_invariant)
    next
      case False
      with run \<open>mStatus s = Unknown\<close> load \<open>st0 \<noteq> 0\<close> comp inv2 show ?thesis
        by (auto simp: prepareExecutable_def split: option.splits
            dest: getCompilerErrorMessage_invariant)
    qed
  qed
qed

lemma prepareRelocatable_invariant:
  assumes run: "prepareRelocatable x objPath RelocModel flags s w = Some (r, s', w')"
    and unk: "mStatus s = Unknown"
    and inv: "artifact_invariant s"
  shows "artifact_invariant s'"
proof -
  let ?opt = "(CompilerOption_new x)\<lparr>RelocModelOpt := RelocModel, LoadAfterCompile := False\<rparr>"
  obtain st s1 where comp: "internalCompile x ?opt s = (st, s1)" by (metis surj_pair)
  have inv1: "artifact_invariant s1" by (rule internalCompile_invariant [OF comp unk inv])
  then have "artifact_invariant (s1\<lparr>mObjectType := Relocatable\<rparr>)"
    by (simp add: artifact_invariant_def split: ScriptStatus.splits)
  with run comp inv1 show ?thesis
    by (auto simp: prepareRelocatable_def Let_def
        split: if_splits prod.splits option.splits dest: getCompilerErrorMessage_invariant)
qed

lemma Script_new_invariant: "artifact_invariant Script_new"
  by (simp add: artifact_invariant_def Script_new_def)

subsection \<open>Compiled with a live artifact is kept by every call\<close>

text \<open>
  A call that returns leaves a Script that is in state Compiled with a live compiled artifact
  in that state, and so does every sequence of calls. (\<^verbatim>\<open>prepareRelocatable\<close> replaces the
  artifact; when its allocation fails the null artifact is followed at once, for the log
  message, and the call does not return.)
\<close>

lemma getCompilerErrorMessage_compiled_live:
  "getCompilerErrorMessage s = Some (msg, s') \<Longrightarrow> compiled_live s \<Longrightarrow> s' = s"
  by (auto simp: getCompilerErrorMessage_def compiled_live_def split: if_splits option.splits)

lemma internalCompile_compiled_live:
  "new_ScriptCompiled x = Some c0 \<Longrightarrow> internalCompile x option s = (r, s') \<Longrightarrow>
   compiled_live s'"
  using internalCompile_allocated [of x c0 option s r s'] by (auto simp: compiled_live_def)

lemma prepareRelocatable_compiled_live:
  assumes run: "prepareRelocatable x objPath RelocModel flags s w = Some (r, s', w')"
    and live: "compiled_live s"
  shows "compiled_live s'"
proof -
  let ?opt = "(CompilerOption_new x)\<lparr>RelocModelOpt := RelocModel, LoadAfterCompile := False\<rparr>"
  obtain st s1 where comp: "internalCompile x ?opt s = (st, s1)" by (metis surj_pair)
  show ?thesis
  proof (cases "new_ScriptCompiled x")
    case None
    from internalCompile_alloc_failure [OF None, of ?opt s] live
    have "prepareRelocatable x objPath RelocModel flags s w = None"
      by (simp add: prepareRelocatable_def getCompilerErrorMessage_def compiled_live_def)
    with run show ?thesis by simp
  next
    case (Some c0)
    have live1: "compiled_live s1" by (rule internalCompile_compiled_live [OF Some comp])
    then have "compiled_live (s1\<lparr>mObjectType := Relocatable\<rparr>)"
      by (simp add: compiled_live_def)
    with run comp live1 show ?thesis
      by (auto simp: prepareRelocatable_def Let_def
          split: if_splits prod.splits option.splits
          dest: getCompilerErrorMessage_compiled_live)
  qed
qed

lemma writeCache_compiled_live:
  "writeCache x s w = Some (r, s', w') \<Longrightarrow> compiled_live s \<Longrightarrow> compiled_live s'"
  using writeCache_script [of x s w r s' w'] by (simp add: compiled_live_def)

lemma call_keeps_compiled_live:
  assumes "call x c s w = Some (s', w')" and "compiled_live s"
  shows "compiled_live s'"
proof (cases c)
  case (PrepareRelocatable objPath RelocModel flags)
  with assms show ?thesis
    by (auto simp: after_prepare_def split: option.splits
        dest: prepareRelocatable_compiled_live)
next
  case (PrepareExecutable cacheDir cacheName flags)
  with assms show ?thesis
    by (auto simp: after_prepare_def prepareExecutable_def compiled_live_def)
next
  case WriteCache
  with assms show ?thesis
    by (auto simp: after_prepare_def split: option.splits dest: writeCache_compiled_live)
next
  case (AddSourceBC idx resName bitcode bitcodeSize flags)
  with assms show ?thesis
    by (auto simp: addSourceBC_def compiled_live_def split: option.splits)
next
  case (AddSourceModule idx module flags)
  with assms show ?thesis by (auto simp: addSourceModule_def compiled_live_def)
next
  case (AddSourceFile idx pth flags)
  with assms show ?thesis by (auto simp: addSourceFile_def compiled_live_def)
next
  case (RegisterSymbolCallback pFn pContext)
  with assms show ?thesis by (auto simp: registerSymbolCallback_def compiled_live_def Let_def)
next
  case (PrepareSharedObject objPath dsoPath flags)
  with assms show ?thesis by (auto simp: prepareSharedObject_def)
qed (use assms in \<open>auto simp: after_query_def compiled_live_def getCompilerErrorMessage_def
      lookup_def query_defs split: option.splits\<close>)

lemma calls_keep_compiled_live:
  "calls cs s w = Some (s', w') \<Longrightarrow> compiled_live s \<Longrightarrow> compiled_live s'"
proof (induction cs arbitrary: s w)
  case Nil
  then show ?case by simp
next
  case (Cons xc cs)
  obtain x c where xc: "xc = (x, c)" by (cases xc)
  with Cons.prems(1) obtain s1 w1 where
    step: "call x c s w = Some (s1, w1)" and rest: "calls cs s1 w1 = Some (s', w')"
    by (auto split: option.splits)
  from call_keeps_compiled_live [OF step Cons.prems(2)] have "compiled_live s1" .
  with Cons.IH [OF rest] show ?case .
qed

subsection \<open>Finalization as an executable\<close>

text \<open>
  Take any \<^verbatim>\<open>prepareExecutable\<close> call on a Script in state Unknown in which the cache load
  misses and \<^verbatim>\<open>internalCompile\<close> returns 0. The call returns (no null artifact is followed),
  the compiled artifact of the pipeline is the active artifact afterwards, and the
  cached-artifact pointer is as before. The returned status is the status of \<^verbatim>\<open>writeCache\<close>:
  0 when the artifact's compiler error message is a string, with the object type set to
  Executable, whatever happens to the cache files (the environment \<open>x\<close> is arbitrary:
  opening and writing them may fail); and 1 when that message is the null pointer.
\<close>

theorem prepareExecutable_after_compile:
  assumes unk: "mStatus s = Unknown"
    and load: "internalLoadCache x cacheDir cacheName False s w = (status0, s1, w1)"
    and miss: "status0 \<noteq> 0"
    and comp: "internalCompile x (CompilerOption_new x) s1 = (0, s2)"
  shows "\<exists>c r s' w'.
           mCompiled s2 = Some c \<and>
           prepareExecutable x cacheDir cacheName flags s w = Some (r, s', w') \<and>
           r = (if compiled_getCompilerErrorMessage c = None then 1 else 0) \<and>
           mStatus s' = Compiled \<and> mCompiled s' = Some c \<and> mCached s' = mCached s \<and>
           (r = 0 \<longrightarrow> mObjectType s' = Executable)"
proof -
  from internalCompile_success [OF comp]
  obtain c where st2: "mStatus s2 = Compiled" and c: "mCompiled s2 = Some c"
    and k2: "mCached s2 = mCached s1"
    by blast
  from internalLoadCache_miss [OF load miss] have k1: "mCached s1 = mCached s"
    by simp
  from writeCache_status [OF st2 c, of x w1]
  obtain w2 where wc: "writeCache x s2 w1 =
      Some ((if compiled_getCompilerErrorMessage c = None then 1 else 0), s2, w2)"
    by blast
  show ?thesis
  proof (cases "compiled_getCompilerErrorMessage c = None")
    case True
    with unk load miss comp wc have
      "prepareExecutable x cacheDir cacheName flags s w = Some (1, s2, w2)"
      by (simp add: prepareExecutable_def)
    with True st2 c k1 k2 show ?thesis by simp
  next
    case False
    with unk load miss comp wc have
      "prepareExecutable x cacheDir cacheName flags s w =
         prepareExecutable_register 0 s2 w2"
      by (simp add: prepareExecutable_def)
    with False st2 c k1 k2 show ?thesis
      by (simp add: prepareExecutable_register_compiled)
  qed
qed

text \<open>
  An instance in which the cache directory cannot be written: no file is created, and the
  operation succeeds with the compiled artifact active.
\<close>

theorem prepareExecutable_after_compile_witness:
  "mStatus script_src = Unknown \<and>
   fst (internalLoadCache ext_cache_unwritable (Some ''/c'') (Some ''s1'') False script_src world0) \<noteq> 0 \<and>
   fst (internalCompile ext_cache_unwritable (CompilerOption_new ext_cache_unwritable)
          (fst (snd (internalLoadCache ext_cache_unwritable (Some ''/c'') (Some ''s1'') False
                       script_src world0)))) = 0 \<and>
   files (snd (snd (the (prepareExecutable ext_cache_unwritable (Some ''/c'') (Some ''s1'') 0
                           script_src world0)))) = Map.empty \<and>
   fst (the (prepareExecutable ext_cache_unwritable (Some ''/c'') (Some ''s1'') 0 script_src world0)) = 0 \<and>
   mStatus (fst (snd (the (prepareExecutable ext_cache_unwritable (Some ''/c'') (Some ''s1'') 0
                             script_src world0)))) = Compiled \<and>
   mCompiled (fst (snd (the (prepareExecutable ext_cache_unwritable (Some ''/c'') (Some ''s1'') 0
                             script_src world0)))) = Some compiled0"
proof -
  let ?x = ext_cache_unwritable
  let ?l = "internalLoadCache ?x (Some ''/c'') (Some ''s1'') False script_src world0"
  let ?c = "internalCompile ?x (CompilerOption_new ?x) (fst (snd ?l))"
  have a: "mStatus script_src = Unknown" by (simp add: script_src_fields)
  have b: "?l = (fst ?l, fst (snd ?l), snd (snd ?l))" by simp
  have c: "fst ?l \<noteq> 0" by (simp add: eval_defs concrete_defs)
  have d0: "fst ?c = 0" by (simp add: eval_defs concrete_defs)
  then have d: "?c = (0, snd ?c)" by (metis prod.collapse)
  have e: "mCompiled (snd ?c) = Some compiled0" by (simp add: eval_defs concrete_defs)
  have f: "compiled_getCompilerErrorMessage compiled0 \<noteq> None" by (simp add: compiled0_def)
  have g: "files (snd (snd (the (prepareExecutable ?x (Some ''/c'') (Some ''s1'') 0
                           script_src world0)))) = Map.empty"
    by (simp add: eval_defs concrete_defs)
  from prepareExecutable_after_compile [OF a b c d, of 0] e f a c d0 g show ?thesis
    by auto
qed


text \<open>
  With the empty string as the cache directory the stored directory is the empty string:
  the separator is appended to a non-empty string only.
\<close>

theorem prepareExecutable_empty_cacheDir:
  "mStatus script_src = Unknown \<and>
   prepareExecutable ext0 (Some []) (Some ''s1'') 0 script_src world0 \<noteq> None \<and>
   mCacheDir (fst (snd (the (prepareExecutable ext0 (Some []) (Some ''s1'') 0 script_src world0))))
     = []"
  by (simp add: eval_defs concrete_defs)

text \<open>
  Claim C9, as the code has it. Every \<^verbatim>\<open>prepareExecutable\<close> call on a Script in state Unknown
  with a non-null cache directory \<open>cd\<close> and a non-null cache name returns, and afterwards the
  stored cache directory is \<open>cd\<close> with \<open>/\<close> appended when \<open>cd\<close> is non-empty and does not end in
  \<open>/\<close>, and \<open>cd\<close> itself otherwise. So it ends in \<open>/\<close> for every non-empty \<open>cd\<close>, and is empty
  for the empty \<open>cd\<close>.
\<close>

theorem prepareExecutable_cacheDir:
  assumes unk: "mStatus s = Unknown"
  shows "\<exists>r s' w'.
           prepareExecutable x (Some cd) (Some cn) flags s w = Some (r, s', w') \<and>
           mCacheDir s' = (if cd \<noteq> [] \<and> last cd \<noteq> CHR ''/'' then cd @ ''/'' else cd) \<and>
           (cd \<noteq> [] \<longrightarrow> last (mCacheDir s') = CHR ''/'') \<and>
           (cd = [] \<longrightarrow> mCacheDir s' = [])"
proof -
  obtain status0 s1 w1 where
    load: "internalLoadCache x (Some cd) (Some cn) False s w = (status0, s1, w1)"
    by (metis prod_cases3)
  let ?dir = "if cd \<noteq> [] \<and> last cd \<noteq> CHR ''/'' then cd @ ''/'' else cd"
  have dir1: "mCacheDir s1 = ?dir"
    by (rule internalLoadCache_cacheDir [OF load])
  have "\<exists>r s' w'. prepareExecutable x (Some cd) (Some cn) flags s w = Some (r, s', w') \<and>
          mCacheDir s' = ?dir"
  proof (cases "status0 = 0")
    case True
    with load internalLoadCache_hit [of x "Some cd" "Some cn" s w s1 w1]
    obtain k where "mStatus s1 = Cached" "mCached s1 = Some k" by blast
    with unk load True dir1 show ?thesis
      by (simp add: prepareExecutable_def prepareExecutable_register_cached)
  next
    case False
    with internalLoadCache_miss [OF load] unk have st1: "mStatus s1 = Unknown" by simp
    obtain status1 s2 where
      comp: "internalCompile x (CompilerOption_new x) s1 = (status1, s2)"
      by (metis surj_pair)
    have dir2: "mCacheDir s2 = ?dir"
      using internalCompile_cacheDir [OF comp] dir1 by simp
    show ?thesis
    proof (cases "new_ScriptCompiled x")
      case None
      from internalCompile_alloc_failure [OF None, of "CompilerOption_new x" s1] comp
      have "status1 = 1" and s2: "s2 = s1\<lparr>mCompiled := None, mErrorCode := BCC_OUT_OF_MEMORY\<rparr>"
        by simp_all
      with st1 have "mStatus s2 \<noteq> Compiled" by simp
      from getCompilerErrorMessage_not_compiled [OF this] unk load False comp \<open>status1 = 1\<close> dir2
      show ?thesis
        by (simp add: prepareExecutable_def)
    next
      case (Some c0)
      from internalCompile_allocated [OF Some comp]
      obtain c where st2: "mStatus s2 = Compiled" and c: "mCompiled s2 = Some c"
        and r: "status1 = 0 \<or> status1 = 1"
        by blast
      from writeCache_status [OF st2 c, of x w1]
      obtain w2 where wc: "writeCache x s2 w1 =
          Some ((if compiled_getCompilerErrorMessage c = None then 1 else 0), s2, w2)"
        by blast
      from r show ?thesis
      proof
        assume "status1 = 0"
        with unk load False comp wc dir2 st2 c show ?thesis
          by (simp add: prepareExecutable_def prepareExecutable_register_compiled)
      next
        assume "status1 = 1"
        with unk load False comp dir2 getCompilerErrorMessage_compiled [OF st2 c] show ?thesis
          by (simp add: prepareExecutable_def)
      qed
    qed
  qed
  then show ?thesis by auto
qed

text \<open>
  An instance: the directory \<open>/c\<close> is stored as \<open>/c/\<close>.
\<close>

theorem prepareExecutable_cacheDir_witness:
  "mStatus script_src = Unknown \<and>
   mCacheDir (fst (snd (the (prepareExecutable ext0 (Some ''/c'') (Some ''s1'') 0
                               script_src world0)))) = ''/c/''"
  using prepareExecutable_cacheDir [of script_src ext0 "''/c''" "''s1''" 0 world0]
  by (auto simp: script_src_fields)

subsection \<open>Finalization as a relocatable object\<close>

text \<open>
  Claim C2 at a short write. The pipeline succeeds, the output file opens for writing, and
  the write stores 2 of the 4 bytes of the object. \<^verbatim>\<open>prepareRelocatable\<close> removes the file, as
  the claim says, and then executes \<^verbatim>\<open>return false\<close>: the status it returns is 0, the status
  of success, where the claim asks for a non-zero one. (It is so at every short write, by
  \<open>prepareRelocatable_short_write\<close>; a file that cannot be opened gives status 1 and no
  change on disk, by \<open>prepareRelocatable_open_failure\<close>.)
\<close>

theorem prepareRelocatable_short_write_returns_zero:
  "fst (internalCompile ext_short_write
          ((CompilerOption_new ext_short_write)\<lparr>RelocModelOpt := 0, LoadAfterCompile := False\<rparr>)
          script_src) = 0 \<and>
   0 \<le> fst (FileHandle_open ext_short_write ''/out.o'' Write world0) \<and>
   write_result ext_short_write ''/out.o'' (Some ''ELF!'') 4 = 2 \<and>
   prepareRelocatable ext_short_write ''/out.o'' 0 0 script_src world0 \<noteq> None \<and>
   fst (the (prepareRelocatable ext_short_write ''/out.o'' 0 0 script_src world0)) = 0 \<and>
   files (snd (snd (the (prepareRelocatable ext_short_write ''/out.o'' 0 0 script_src world0))))
     ''/out.o'' = None"
  by (simp add: eval_defs concrete_defs)

text \<open>
  Claim C3 at a Script in state Cached. \<^verbatim>\<open>prepareRelocatable\<close> has no test of the status: it
  runs the pipeline, returns 0, leaves the error code as it was, writes the object file and
  moves the Script from Cached to Compiled. (\<^verbatim>\<open>prepareExecutable\<close> does refuse, by
  \<open>prepareExecutable_finalized\<close>, and no finalization returns the status to Unknown, by
  \<open>prepareRelocatable_keeps_finalized\<close> and \<open>prepareExecutable_keeps_finalized\<close>.)
\<close>

theorem prepareRelocatable_refinalizes_cached:
  "mStatus script_cached = Cached \<and>
   prepareRelocatable ext0 ''/out.o'' 0 0 script_cached world_registered \<noteq> None \<and>
   fst (the (prepareRelocatable ext0 ''/out.o'' 0 0 script_cached world_registered)) = 0 \<and>
   mErrorCode (fst (snd (the (prepareRelocatable ext0 ''/out.o'' 0 0 script_cached world_registered))))
     = BCC_NO_ERROR \<and>
   mStatus (fst (snd (the (prepareRelocatable ext0 ''/out.o'' 0 0 script_cached world_registered))))
     = Compiled \<and>
   mCompiled (fst (snd (the (prepareRelocatable ext0 ''/out.o'' 0 0 script_cached world_registered))))
     = Some compiled0 \<and>
   files (snd (snd (the (prepareRelocatable ext0 ''/out.o'' 0 0 script_cached world_registered))))
     ''/out.o'' = Some ''ELF!''"
  by (simp add: eval_defs concrete_defs)

text \<open>
  Claim C8 at a state reached by three operations on a new Script: \<^verbatim>\<open>addSourceBC\<close>, a
  \<^verbatim>\<open>prepareExecutable\<close> that loads the cache, and \<^verbatim>\<open>prepareRelocatable\<close>. In that state the
  compiled-artifact pointer and the cached-artifact pointer are both non-null. (Without a
  \<^verbatim>\<open>prepareRelocatable\<close> on a finalized Script the invariant is kept, by
  \<open>prepareExecutable_invariant\<close> and \<open>prepareRelocatable_invariant\<close>.)
\<close>

theorem both_artifacts_live_after_prepareRelocatable:
  "prepareExecutable ext0 (Some ''/c'') (Some ''s1'') 0
     (snd (addSourceBC ext0 0 (Some ''s1'') (Some ''BC'') 2 0 Script_new)) world_cached
     = Some (0, script_cached, world_registered) \<and>
   mStatus (fst (snd (the (prepareRelocatable ext0 ''/out.o'' 0 0 script_cached world_registered))))
     = Compiled \<and>
   mCompiled (fst (snd (the (prepareRelocatable ext0 ''/out.o'' 0 0 script_cached world_registered))))
     \<noteq> None \<and>
   mCached (fst (snd (the (prepareRelocatable ext0 ''/out.o'' 0 0 script_cached world_registered))))
     \<noteq> None"
  by (simp add: eval_defs concrete_defs)

subsection \<open>Adding a source after finalization\<close>

text \<open>
  \<^verbatim>\<open>addSourceBC\<close> tests \<^verbatim>\<open>resName\<close> before it tests the status: on a compiled Script a null
  \<^verbatim>\<open>resName\<close> is reported as \<^verbatim>\<open>BCC_INVALID_VALUE\<close>.
\<close>

theorem addSourceBC_null_name_after_finalization:
  "mStatus script_compiled \<noteq> Unknown \<and>
   fst (addSourceBC ext0 0 None (Some ''BC'') 2 0 script_compiled) = 1 \<and>
   mErrorCode (snd (addSourceBC ext0 0 None (Some ''BC'') 2 0 script_compiled))
     = BCC_INVALID_VALUE \<and>
   mErrorCode (snd (addSourceBC ext0 0 None (Some ''BC'') 2 0 script_compiled))
     \<noteq> BCC_INVALID_OPERATION"
  by (simp add: addSourceBC_def script_compiled_def)

text \<open>
  Claim C4, as the code has it. On a Script whose status is not Unknown, each of the three
  add-source operations returns 1 for all argument values and changes nothing but the error
  code, so both source slots are as before. The error code is \<^verbatim>\<open>BCC_INVALID_OPERATION\<close>,
  except for \<^verbatim>\<open>addSourceBC\<close> with a null \<^verbatim>\<open>resName\<close>, where it is \<^verbatim>\<open>BCC_INVALID_VALUE\<close>.
\<close>

theorem addSource_after_finalization:
  assumes "mStatus s \<noteq> Unknown"
  shows "addSourceBC x idx resName bitcode bitcodeSize flags s =
           (1, s\<lparr>mErrorCode :=
                    (if resName = None then BCC_INVALID_VALUE else BCC_INVALID_OPERATION)\<rparr>) \<and>
         addSourceModule x idx module flags s = (1, s\<lparr>mErrorCode := BCC_INVALID_OPERATION\<rparr>) \<and>
         addSourceFile x idx pth flags s = (1, s\<lparr>mErrorCode := BCC_INVALID_OPERATION\<rparr>) \<and>
         mSourceList (snd (addSourceBC x idx resName bitcode bitcodeSize flags s))
           = mSourceList s \<and>
         mSourceList (snd (addSourceModule x idx module flags s)) = mSourceList s \<and>
         mSourceList (snd (addSourceFile x idx pth flags s)) = mSourceList s"
  using assms
  by (simp add: addSourceBC_def addSourceModule_def addSourceFile_def split: option.split)

text \<open>
  Instances on the Script that loaded its cache.
\<close>

theorem addSource_after_finalization_witness:
  "mStatus script_cached \<noteq> Unknown \<and>
   addSourceBC ext0 1 (Some ''s2'') (Some ''BC'') 2 0 script_cached
     = (1, script_cached\<lparr>mErrorCode := BCC_INVALID_OPERATION\<rparr>) \<and>
   addSourceBC ext0 0 None None 0 0 script_cached
     = (1, script_cached\<lparr>mErrorCode := BCC_INVALID_VALUE\<rparr>) \<and>
   addSourceModule ext0 1 None 0 script_cached
     = (1, script_cached\<lparr>mErrorCode := BCC_INVALID_OPERATION\<rparr>) \<and>
   addSourceFile ext0 1 (Some ''/lib.bc'') 0 script_cached
     = (1, script_cached\<lparr>mErrorCode := BCC_INVALID_OPERATION\<rparr>)"
proof -
  have a: "mStatus script_cached \<noteq> Unknown" by (simp add: script_cached_def)
  from addSource_after_finalization [OF a, of ext0 1 "Some ''s2''" "Some ''BC''" 2 0 None
      "Some ''/lib.bc''"]
    addSource_after_finalization [OF a, of ext0 0 None None 0 0] a
  show ?thesis by simp
qed

subsection \<open>Queries\<close>

text \<open>
  The count queries are \<^verbatim>\<open>const\<close>: on a new Script \<^verbatim>\<open>getExportVarCount\<close> returns 0 and the
  error code is still \<^verbatim>\<open>BCC_NO_ERROR\<close>.
\<close>

theorem getExportVarCount_keeps_errorCode:
  "mStatus Script_new = Unknown \<and>
   getExportVarCount Script_new = Some (0, Script_new) \<and>
   mErrorCode Script_new \<noteq> BCC_INVALID_OPERATION"
  by (simp add: getExportVarCount_def Script_new_def)

text \<open>
  Claim C5, as the code has it. On a Script whose status is Unknown, each count query
  returns zero and leaves the Script, and so its error code, unchanged; each list-fill query
  and each name-list query leaves the caller's buffer unchanged and sets the error code to
  \<^verbatim>\<open>BCC_INVALID_OPERATION\<close>.
\<close>

theorem queries_before_finalization:
  assumes "mStatus s = Unknown"
  shows "getExportVarCount s = Some (0, s) \<and>
         getExportFuncCount s = Some (0, s) \<and>
         getExportForEachCount s = Some (0, s) \<and>
         getPragmaCount s = Some (0, s) \<and>
         getFuncCount s = Some (0, s) \<and>
         getObjectSlotCount s = Some (0, s) \<and>
         getExportVarList n vars s = Some (vars, s\<lparr>mErrorCode := BCC_INVALID_OPERATION\<rparr>) \<and>
         getExportFuncList n funcs s = Some (funcs, s\<lparr>mErrorCode := BCC_INVALID_OPERATION\<rparr>) \<and>
         getExportForEachList n kernels s
           = Some (kernels, s\<lparr>mErrorCode := BCC_INVALID_OPERATION\<rparr>) \<and>
         getPragmaList n keysValues s
           = Some (keysValues, s\<lparr>mErrorCode := BCC_INVALID_OPERATION\<rparr>) \<and>
         getFuncInfoList n infos s = Some (infos, s\<lparr>mErrorCode := BCC_INVALID_OPERATION\<rparr>) \<and>
         getObjectSlotList n slots s = Some (slots, s\<lparr>mErrorCode := BCC_INVALID_OPERATION\<rparr>) \<and>
         getExportVarNameList names s = Some (names, s\<lparr>mErrorCode := BCC_INVALID_OPERATION\<rparr>) \<and>
         getExportFuncNameList names s = Some (names, s\<lparr>mErrorCode := BCC_INVALID_OPERATION\<rparr>) \<and>
         getExportForEachNameList names s
           = Some (names, s\<lparr>mErrorCode := BCC_INVALID_OPERATION\<rparr>)"
  using assms
  by (simp add: getExportVarCount_def getExportFuncCount_def getExportForEachCount_def
      getPragmaCount_def getFuncCount_def getObjectSlotCount_def getExportVarList_def
      getExportFuncList_def getExportForEachList_def getPragmaList_def getFuncInfoList_def
      getObjectSlotList_def getExportVarNameList_def getExportFuncNameList_def
      getExportForEachNameList_def)

text \<open>
  Instances on a new Script.
\<close>

theorem queries_before_finalization_witness:
  "mStatus Script_new = Unknown \<and>
   getExportVarCount Script_new = Some (0, Script_new) \<and>
   getObjectSlotCount Script_new = Some (0, Script_new) \<and>
   getExportVarList 2 [Some 5, None] Script_new
     = Some ([Some 5, None], Script_new\<lparr>mErrorCode := BCC_INVALID_OPERATION\<rparr>) \<and>
   getPragmaList 1 ([''k''], [''v'']) Script_new
     = Some (([''k''], [''v'']), Script_new\<lparr>mErrorCode := BCC_INVALID_OPERATION\<rparr>)"
proof -
  have u: "mStatus Script_new = Unknown" by (simp add: Script_new_def)
  from queries_before_finalization [OF u, of 2 "[Some 5, None]"]
    queries_before_finalization [OF u, of 1 _ _ _ "([''k''], [''v''])"] u
  show ?thesis by simp
qed

text \<open>
  The name-list queries have a case for Compiled only. On the Script that loaded its cache
  they leave the caller's list as it is and set \<^verbatim>\<open>BCC_INVALID_OPERATION\<close>.
\<close>

theorem name_lists_fail_when_cached:
  "mStatus script_cached = Cached \<and> mCached script_cached = Some cached0 \<and>
   getExportVarNameList [] script_cached
     = Some ([], script_cached\<lparr>mErrorCode := BCC_INVALID_OPERATION\<rparr>) \<and>
   getExportFuncNameList [] script_cached
     = Some ([], script_cached\<lparr>mErrorCode := BCC_INVALID_OPERATION\<rparr>) \<and>
   getExportForEachNameList [] script_cached
     = Some ([], script_cached\<lparr>mErrorCode := BCC_INVALID_OPERATION\<rparr>)"
  by (simp add: script_cached_def getExportVarNameList_def getExportFuncNameList_def
      getExportForEachNameList_def)

text \<open>
  Claim C6, as the code has it. For a Script \<open>s\<close> in state Compiled with compiled artifact
  \<open>c\<close>, every export-metadata query (counts, list-fills and name lists) returns the answer
  of \<open>c\<close> and leaves the Script unchanged. For a Script \<open>t\<close> in state Cached with cached
  artifact \<open>k\<close>, every count query and list-fill query returns the answer of \<open>k\<close> and leaves
  the Script unchanged, and the three name-list queries leave the caller's list unchanged
  and set the error code to \<^verbatim>\<open>BCC_INVALID_OPERATION\<close>.
\<close>

theorem queries_after_finalization:
  assumes "mStatus s = Compiled" and "mCompiled s = Some c"
    and "mStatus t = Cached" and "mCached t = Some k"
  shows "getExportVarCount s = Some (compiled_getExportVarCount c, s) \<and>
         getExportFuncCount s = Some (compiled_getExportFuncCount c, s) \<and>
         getExportForEachCount s = Some (compiled_getExportForEachCount c, s) \<and>
         getPragmaCount s = Some (compiled_getPragmaCount c, s) \<and>
         getFuncCount s = Some (compiled_getFuncCount c, s) \<and>
         getObjectSlotCount s = Some (compiled_getObjectSlotCount c, s) \<and>
         getExportVarList n vars s = Some (compiled_getExportVarList c n vars, s) \<and>
         getExportFuncList n funcs s = Some (compiled_getExportFuncList c n funcs, s) \<and>
         getExportForEachList n kernels s = Some (compiled_getExportForEachList c n kernels, s) \<and>
         getPragmaList n keysValues s = Some (compiled_getPragmaList c n keysValues, s) \<and>
         getFuncInfoList n infos s = Some (compiled_getFuncInfoList c n infos, s) \<and>
         getObjectSlotList n slots s = Some (compiled_getObjectSlotList c n slots, s) \<and>
         getExportVarNameList names s = Some (compiled_getExportVarNameList c names, s) \<and>
         getExportFuncNameList names s = Some (compiled_getExportFuncNameList c names, s) \<and>
         getExportForEachNameList names s = Some (compiled_getExportForEachNameList c names, s) \<and>
         getExportVarCount t = Some (cached_getExportVarCount k, t) \<and>
         getExportFuncCount t = Some (cached_getExportFuncCount k, t) \<and>
         getExportForEachCount t = Some (cached_getExportForEachCount k, t) \<and>
         getPragmaCount t = Some (cached_getPragmaCount k, t) \<and>
         getFuncCount t = Some (cached_getFuncCount k, t) \<and>
         getObjectSlotCount t = Some (cached_getObjectSlotCount k, t) \<and>
         getExportVarList n vars t = Some (cached_getExportVarList k n vars, t) \<and>
         getExportFuncList n funcs t = Some (cached_getExportFuncList k n funcs, t) \<and>
         getExportForEachList n kernels t = Some (cached_getExportForEachList k n kernels, t) \<and>
         getPragmaList n keysValues t = Some (cached_getPragmaList k n keysValues, t) \<and>
         getFuncInfoList n infos t = Some (cached_getFuncInfoList k n infos, t) \<and>
         getObjectSlotList n slots t = Some (cached_getObjectSlotList k n slots, t) \<and>
         getExportVarNameList names t = Some (names, t\<lparr>mErrorCode := BCC_INVALID_OPERATION\<rparr>) \<and>
         getExportFuncNameList names t = Some (names, t\<lparr>mErrorCode := BCC_INVALID_OPERATION\<rparr>) \<and>
         getExportForEachNameList names t
           = Some (names, t\<lparr>mErrorCode := BCC_INVALID_OPERATION\<rparr>)"
  using assms
  by (simp add: getExportVarCount_def getExportFuncCount_def getExportForEachCount_def
      getPragmaCount_def getFuncCount_def getObjectSlotCount_def getExportVarList_def
      getExportFuncList_def getExportForEachList_def getPragmaList_def getFuncInfoList_def
      getObjectSlotList_def getExportVarNameList_def getExportFuncNameList_def
      getExportForEachNameList_def)

text \<open>
  Instances on a compiled Script and on the Script that loaded its cache.
\<close>

theorem queries_after_finalization_witness:
  "mStatus script_compiled = Compiled \<and> mCompiled script_compiled = Some compiled0 \<and>
   mStatus script_cached = Cached \<and> mCached script_cached = Some cached0 \<and>
   getExportVarCount script_compiled = Some (1, script_compiled) \<and>
   getExportVarCount script_cached = Some (1, script_cached) \<and>
   getExportVarList 1 [None] script_compiled = Some ([Some 8192], script_compiled) \<and>
   getExportVarList 1 [None] script_cached = Some ([Some 8192], script_cached) \<and>
   getExportVarNameList [] script_compiled = Some ([''gVar''], script_compiled) \<and>
   getExportVarNameList [] script_cached
     = Some ([], script_cached\<lparr>mErrorCode := BCC_INVALID_OPERATION\<rparr>)"
proof -
  have a: "mStatus script_compiled = Compiled" "mCompiled script_compiled = Some compiled0"
    by (simp_all add: script_compiled_def)
  have b: "mStatus script_cached = Cached" "mCached script_cached = Some cached0"
    by (simp_all add: script_cached_def)
  from queries_after_finalization [OF a b, of 1 "[None]" _ _ _ _ _ "[]"] a b
  show ?thesis by (simp add: compiled0_def cached0_def)
qed

subsection \<open>Registering the symbol callback\<close>

text \<open>
  Claim C7. After \<^verbatim>\<open>registerSymbolCallback(pFn, pContext)\<close> in any state the stored callback
  and context are \<open>pFn\<close> and \<open>pContext\<close>; the call returns a failure with error code
  \<^verbatim>\<open>BCC_INVALID_OPERATION\<close> if and only if the status is not Unknown (it returns 1 then, and
  0 in state Unknown).
\<close>

theorem registerSymbolCallback_stores_then_reports:
  "mpExtSymbolLookupFn (snd (registerSymbolCallback pFn pContext s)) = pFn \<and>
   mpExtSymbolLookupFnContext (snd (registerSymbolCallback pFn pContext s)) = pContext \<and>
   ((fst (registerSymbolCallback pFn pContext s) \<noteq> 0 \<and>
     mErrorCode (snd (registerSymbolCallback pFn pContext s)) = BCC_INVALID_OPERATION)
    \<longleftrightarrow> mStatus s \<noteq> Unknown) \<and>
   fst (registerSymbolCallback pFn pContext s) = (if mStatus s \<noteq> Unknown then 1 else 0)"
  by (simp add: registerSymbolCallback_def Let_def)

text \<open>
  A late registration on a compiled Script: it is reported as invalid and it is stored.
\<close>

theorem registerSymbolCallback_stores_then_reports_witness:
  "mStatus script_compiled \<noteq> Unknown \<and>
   mpExtSymbolLookupFn script_compiled = None \<and>
   mpExtSymbolLookupFn (snd (registerSymbolCallback (Some 7) (Some 9) script_compiled)) = Some 7 \<and>
   mpExtSymbolLookupFnContext (snd (registerSymbolCallback (Some 7) (Some 9) script_compiled))
     = Some 9 \<and>
   fst (registerSymbolCallback (Some 7) (Some 9) script_compiled) = 1 \<and>
   mErrorCode (snd (registerSymbolCallback (Some 7) (Some 9) script_compiled))
     = BCC_INVALID_OPERATION"
  using registerSymbolCallback_stores_then_reports [of "Some 7" "Some 9" script_compiled]
  by (simp add: script_compiled_def Script_new_def)

subsection \<open>A pipeline that fails after the allocation\<close>

text \<open>
  Claim C10. Whenever \<^verbatim>\<open>internalCompile\<close> is entered and the allocation of the compiled
  artifact succeeds, the Script \<open>s1\<close> it leaves is in state Compiled with a live compiled
  artifact, whatever status \<open>r\<close> the pipeline returns: the status is set before the first
  source is looked at, so it is set also when a later step fails. The state is terminal:
  after every sequence \<open>cs\<close> of later calls that returns, the Script \<open>s2\<close> is still in state
  Compiled with a live compiled artifact. On it \<^verbatim>\<open>getCompilerErrorMessage\<close> returns the
  artifact's message and changes nothing, and \<^verbatim>\<open>prepareExecutable\<close> and the add-source
  operations return 1 and change only the error code, to \<^verbatim>\<open>BCC_INVALID_OPERATION\<close>.
\<close>

theorem internalCompile_sets_status_first:
  assumes alloc: "new_ScriptCompiled x = Some c0"
    and comp: "internalCompile x option s = (r, s1)"
    and later: "calls cs s1 w1 = Some (s2, w2)"
  shows "mStatus s1 = Compiled \<and> mCompiled s1 \<noteq> None \<and>
         mStatus s2 = Compiled \<and>
         (\<exists>c. mCompiled s2 = Some c \<and>
              getCompilerErrorMessage s2 = Some (compiled_getCompilerErrorMessage c, s2)) \<and>
         prepareExecutable y cacheDir cacheName flags s2 w
           = Some (1, s2\<lparr>mErrorCode := BCC_INVALID_OPERATION\<rparr>, w) \<and>
         addSourceBC y idx (Some resName) bitcode bitcodeSize flags s2
           = (1, s2\<lparr>mErrorCode := BCC_INVALID_OPERATION\<rparr>) \<and>
         addSourceModule y idx module flags s2 = (1, s2\<lparr>mErrorCode := BCC_INVALID_OPERATION\<rparr>) \<and>
         addSourceFile y idx pth flags s2 = (1, s2\<lparr>mErrorCode := BCC_INVALID_OPERATION\<rparr>)"
proof -
  have live1: "compiled_live s1" by (rule internalCompile_compiled_live [OF alloc comp])
  from calls_keep_compiled_live [OF later live1] have live2: "compiled_live s2" .
  then obtain c where st: "mStatus s2 = Compiled" and c: "mCompiled s2 = Some c"
    by (auto simp: compiled_live_def)
  from st have nu: "mStatus s2 \<noteq> Unknown" by simp
  have "getCompilerErrorMessage s2 = Some (compiled_getCompilerErrorMessage c, s2)"
    by (rule getCompilerErrorMessage_compiled [OF st c])
  moreover have "prepareExecutable y cacheDir cacheName flags s2 w
      = Some (1, s2\<lparr>mErrorCode := BCC_INVALID_OPERATION\<rparr>, w)"
    by (rule prepareExecutable_finalized [OF nu])
  moreover have "addSourceBC y idx (Some resName) bitcode bitcodeSize flags s2
      = (1, s2\<lparr>mErrorCode := BCC_INVALID_OPERATION\<rparr>)"
    using nu by (simp add: addSourceBC_def)
  moreover have "addSourceModule y idx module flags s2
      = (1, s2\<lparr>mErrorCode := BCC_INVALID_OPERATION\<rparr>)"
    using nu by (simp add: addSourceModule_def)
  moreover have "addSourceFile y idx pth flags s2
      = (1, s2\<lparr>mErrorCode := BCC_INVALID_OPERATION\<rparr>)"
    using nu by (simp add: addSourceFile_def)
  ultimately show ?thesis using live1 st c by (simp add: compiled_live_def)
qed

text \<open>
  An instance: the pipeline on a new Script without a source returns 1 and leaves a compiled
  Script; an add-source call, a second finalization of each kind and two queries later it is
  still compiled, and the calls of the claim fail.
\<close>

theorem internalCompile_sets_status_first_witness:
  "new_ScriptCompiled ext0 = Some compiled0 \<and>
   internalCompile ext0 (CompilerOption_new ext0) Script_new = (1, script_compiled) \<and>
   calls [(ext0, AddSourceModule 1 (Some 5) 0),
          (ext0, PrepareRelocatable ''/out.o'' 0 0),
          (ext0, PrepareExecutable (Some ''/c'') (Some ''s1'') 0),
          (ext0, GetCompilerErrorMessage),
          (ext0, GetExportVarCount)] script_compiled world0
     = Some (script_compiled\<lparr>mErrorCode := BCC_INVALID_OPERATION\<rparr>, world0) \<and>
   mStatus (script_compiled\<lparr>mErrorCode := BCC_INVALID_OPERATION\<rparr>) = Compiled \<and>
   getCompilerErrorMessage (script_compiled\<lparr>mErrorCode := BCC_INVALID_OPERATION\<rparr>)
     = Some (Some [], script_compiled\<lparr>mErrorCode := BCC_INVALID_OPERATION\<rparr>) \<and>
   prepareExecutable ext0 (Some ''/c'') (Some ''s1'') 0
       (script_compiled\<lparr>mErrorCode := BCC_INVALID_OPERATION\<rparr>) world0
     = Some (1, script_compiled\<lparr>mErrorCode := BCC_INVALID_OPERATION\<rparr>, world0) \<and>
   addSourceBC ext0 0 (Some ''s1'') (Some ''BC'') 2 0
       (script_compiled\<lparr>mErrorCode := BCC_INVALID_OPERATION\<rparr>)
     = (1, script_compiled\<lparr>mErrorCode := BCC_INVALID_OPERATION\<rparr>)"
proof -
  let ?s2 = "script_compiled\<lparr>mErrorCode := BCC_INVALID_OPERATION\<rparr>"
  have a: "new_ScriptCompiled ext0 = Some compiled0" by (simp add: ext0_def)
  have b: "internalCompile ext0 (CompilerOption_new ext0) Script_new = (1, script_compiled)"
    by (simp add: internalCompile_def ext0_def Script_new_def script_compiled_def)
  have c: "calls [(ext0, AddSourceModule 1 (Some 5) 0),
          (ext0, PrepareRelocatable ''/out.o'' 0 0),
          (ext0, PrepareExecutable (Some ''/c'') (Some ''s1'') 0),
          (ext0, GetCompilerErrorMessage),
          (ext0, GetExportVarCount)] script_compiled world0 = Some (?s2, world0)"
    by (simp add: addSourceModule_def prepareRelocatable_def prepareExecutable_def
        internalCompile_def getCompilerErrorMessage_def getExportVarCount_def
        after_prepare_def after_query_def ext0_def script_compiled_def Script_new_def)
  have d: "mCompiled ?s2 = Some compiled0" by (simp add: script_compiled_def)
  have e: "compiled_getCompilerErrorMessage compiled0 = Some []" by (simp add: compiled0_def)
  from internalCompile_sets_status_first [OF a b c, of ext0 "Some ''/c''" "Some ''s1''" 0 world0
      0 "''s1''" "Some ''BC''" 2] a b c d e
  show ?thesis by auto
qed

end
